(* ===== verification/Prelude.thy ===== *)
theory Prelude
  imports Main
    "HOL-Library.Multiset"
    "HOL-Library.Sublist"
    "HOL-Library.Product_Lexorder"
begin

text \<open>
  Shared vocabulary of the development of \<^verbatim>\<open>src/app.py\<close>: the Python exceptions the
  program can raise, the two string operations it uses (the substring test
  \<^verbatim>\<open>"RT @" in tweet.text\<close> and \<^verbatim>\<open>text.replace('\n', '')\<close>), the descending order
  that both \<^verbatim>\<open>sort_values(..., ascending=False)\<close> calls produce, and generic
  lemmas on lists, sums and multisets that the component theories share.
\<close>

named_theorems exec_simps
  "equations that evaluate the model on a concrete input (witnesses)"
named_theorems desc_sorted
  "facts about lists sorted in descending order of a key"

section \<open>Python exceptions\<close>

text \<open>
  The exceptions the program's code paths can raise. \<open>KeyError\<close>: a missing key of
  \<^verbatim>\<open>CONFIG\<close> or of \<^verbatim>\<open>request.form\<close>; \<open>AttributeError\<close>: a status object without
  the named attribute; \<open>TweepError\<close>: an error of the Twitter API (unknown handle,
  bad credentials, rate limit), with its message; \<open>OutOfBoundsDatetime\<close>: pandas'
  error for a timestamp outside the range of its nanosecond \<^verbatim>\<open>Timestamp\<close>.
\<close>

datatype py_error =
    KeyError string
  | AttributeError string
  | TweepError string
  | OutOfBoundsDatetime

text \<open>
  Sequencing two Python steps, the first of which may raise: the exception
  propagates and the second step does not run.
\<close>

definition py_bind :: "py_error + 'a \<Rightarrow> ('a \<Rightarrow> py_error + 'b) \<Rightarrow> py_error + 'b" where
  "py_bind m f = (case m of Inl e \<Rightarrow> Inl e | Inr x \<Rightarrow> f x)"

text \<open>\<^verbatim>\<open>d[key]\<close> on a dict: \<^verbatim>\<open>KeyError\<close> when the key is absent.\<close>

definition py_getitem :: "(string \<Rightarrow> 'v option) \<Rightarrow> string \<Rightarrow> py_error + 'v" where
  "py_getitem d key = (case d key of None \<Rightarrow> Inl (KeyError key) | Some v \<Rightarrow> Inr v)"

section \<open>Strings\<close>

text \<open>
  Python's \<^verbatim>\<open>p in s\<close> for strings: a scan over the positions of \<open>s\<close> that tests
  whether \<open>p\<close> starts there.
\<close>

fun str_contains :: "string \<Rightarrow> string \<Rightarrow> bool" where
  "str_contains p [] = (p = [])"
| "str_contains p (c # cs) = (prefix p (c # cs) \<or> str_contains p cs)"

text \<open>\<^verbatim>\<open>s.replace('\n', '')\<close>: every line feed removed, the rest kept in order.\<close>

definition newline :: char where
  "newline = CHR 0x0A"

definition strip_newlines :: "string \<Rightarrow> string" where
  "strip_newlines s = filter (\<lambda>c. c \<noteq> newline) s"

section \<open>Descending order of a key\<close>

text \<open>\<open>xs\<close> is in non-increasing order of \<open>f\<close>.\<close>

abbreviation sorted_desc :: "('a \<Rightarrow> 'k::linorder) \<Rightarrow> 'a list \<Rightarrow> bool" where
  "sorted_desc f xs \<equiv> sorted_wrt (\<lambda>a b. f b \<le> f a) xs"

section \<open>Lemmas on exception propagation\<close>

lemma py_bind_simps [simp, exec_simps]:
  "py_bind (Inl e) f = Inl e"
  "py_bind (Inr x) f = f x"
  by (simp_all add: py_bind_def)

lemma py_bind_eq_Inr [simp]:
  "py_bind m f = Inr y \<longleftrightarrow> (\<exists>x. m = Inr x \<and> f x = Inr y)"
  by (cases m) simp_all

lemma py_getitem_Inr [simp]: "py_getitem d key = Inr v \<longleftrightarrow> d key = Some v"
  by (cases "d key") (simp_all add: py_getitem_def)

lemma py_getitem_Inl [simp]: "py_getitem d key = Inl e \<longleftrightarrow> d key = None \<and> e = KeyError key"
  by (cases "d key") (auto simp: py_getitem_def)

lemma py_getitem_simps [exec_simps]:
  "d key = None \<Longrightarrow> py_getitem d key = Inl (KeyError key)"
  "d key = Some v \<Longrightarrow> py_getitem d key = Inr v"
  by (simp_all add: py_getitem_def)

lemma py_bind_eq_Inl:
  "py_bind m f = Inl e \<longleftrightarrow> m = Inl e \<or> (\<exists>x. m = Inr x \<and> f x = Inl e)"
  by (cases m) simp_all

section \<open>Lemmas on strings\<close>

text \<open>
  The scan that models Python's substring test \<^verbatim>\<open>p in s\<close> decides exactly
  the library's contiguous-sublist relation: \<open>p\<close> occurs somewhere in \<open>s\<close>.
\<close>

lemma str_contains_sublist: "str_contains p s \<longleftrightarrow> sublist p s"
  by (induction s) (auto simp: sublist_Cons_right)

lemma strip_newlines_no_newline: "newline \<notin> set (strip_newlines s)"
  by (simp add: strip_newlines_def)

lemma strip_newlines_append [simp]:
  "strip_newlines (xs @ ys) = strip_newlines xs @ strip_newlines ys"
  by (simp add: strip_newlines_def)

section \<open>Lemmas on lists\<close>

lemma in_set_map_filter:
  "x \<in> set (List.map_filter f xs) \<longleftrightarrow> (\<exists>y\<in>set xs. f y = Some x)"
  by (induction xs) (auto split: option.splits)

lemma map_filter_append:
  "List.map_filter f (xs @ ys) = List.map_filter f xs @ List.map_filter f ys"
  by (simp add: map_filter_def)

section \<open>Lemmas on descending order\<close>

lemma sorted_desc_iff_sorted_rev:
  "sorted_desc f xs \<longleftrightarrow> sorted (rev (map f xs))"
  by (simp add: sorted_wrt_rev sorted_wrt_map)

text \<open>
  Two lists that hold the same elements and are both sorted in descending order of
  \<open>f\<close> agree on the sequence of keys: ties may be ordered differently, nothing else.
\<close>

lemma sorted_desc_keys_unique [desc_sorted]:
  assumes "mset ys = mset zs" and "sorted_desc f ys" and "sorted_desc f zs"
  shows "map f ys = map f zs"
proof -
  have m: "mset (rev (map f ys)) = mset (rev (map f zs))"
    using assms(1) by simp
  have "sort (rev (map f zs)) = rev (map f ys)"
    using m assms(2) by (intro properties_for_sort) (simp_all add: sorted_desc_iff_sorted_rev)
  moreover have "sort (rev (map f zs)) = rev (map f zs)"
    using assms(3) by (simp add: sorted_desc_iff_sorted_rev sorted_sort_id)
  ultimately show ?thesis by simp
qed

lemma sorted_desc_keys_eq_rev_sort [desc_sorted]:
  assumes "mset ys = mset xs" and "sorted_desc f ys"
  shows "map f ys = rev (sort (map f xs))"
proof -
  have "sort (map f xs) = rev (map f ys)"
    using assms by (intro properties_for_sort) (simp_all add: sorted_desc_iff_sorted_rev)
  then show ?thesis by simp
qed

section \<open>Sums over groups\<close>

text \<open>
  Summing a column group by group, over a list of distinct keys that covers every
  key of the rows, gives the column's total: no row is lost or counted twice.
\<close>

lemma sum_list_groups:
  fixes v :: "'a \<Rightarrow> 'b::comm_monoid_add"
  assumes "distinct ks" and "set (map g xs) \<subseteq> set ks"
  shows "(\<Sum>k\<leftarrow>ks. sum_list (map v (filter (\<lambda>x. g x = k) xs))) = sum_list (map v xs)"
  using assms(2)
proof (induction xs)
  case Nil
  then show ?case by simp
next
  case (Cons x xs)
  have pt: "\<And>k. sum_list (map v (filter (\<lambda>y. g y = k) (x # xs)))
      = (if g x = k then v x else 0) + sum_list (map v (filter (\<lambda>y. g y = k) xs))"
    by simp
  have split: "(\<Sum>k\<leftarrow>ks. sum_list (map v (filter (\<lambda>y. g y = k) (x # xs))))
      = (\<Sum>k\<leftarrow>ks. (if g x = k then v x else 0)) +
        (\<Sum>k\<leftarrow>ks. sum_list (map v (filter (\<lambda>y. g y = k) xs)))"
    by (simp only: pt sum_list_addf)
  have "(\<Sum>k\<leftarrow>ks. (if g x = k then v x else 0)) = v x"
    using assms(1) Cons.prems by (simp add: sum_list_distinct_conv_sum_set)
  with split Cons show ?case by simp
qed

end
