(* ===== verification/Tweet.thy ===== *)
theory Tweet
  imports Prelude
begin

text \<open>
  The data of \<^verbatim>\<open>src/app.py\<close>: the timestamp of a tweet (a Python \<^verbatim>\<open>datetime\<close>) and
  its calendar date (\<^verbatim>\<open>.dt.date\<close>), the attributes of a tweepy \<^verbatim>\<open>Status\<close> that
  \<^verbatim>\<open>get_tweets_df\<close> reads (each may be missing, which raises
  \<^verbatim>\<open>AttributeError\<close>), and one row of \<^verbatim>\<open>tweets_df\<close> with the five columns of
  the list \<^verbatim>\<open>columns\<close>.
\<close>

section \<open>Timestamps and dates\<close>

text \<open>
  A \<^verbatim>\<open>datetime\<close> (microseconds and time zone are never read by the program). Its
  date is the triple (year, month, day), ordered lexicographically as Python orders
  \<^verbatim>\<open>datetime.date\<close> values.
\<close>

record datetime =
  year :: nat
  month :: nat
  day :: nat
  hour :: nat
  minute :: nat
  second :: nat

type_synonym date = "nat \<times> nat \<times> nat"

definition date_of :: "datetime \<Rightarrow> date" where
  "date_of t = (year t, month t, day t)"

section \<open>Status objects of the Twitter API\<close>

text \<open>
  The attributes of a tweepy \<^verbatim>\<open>Status\<close> the program reads: \<^verbatim>\<open>id\<close>,
  \<^verbatim>\<open>created_at\<close>, \<^verbatim>\<open>text\<close>, \<^verbatim>\<open>favorite_count\<close>, \<^verbatim>\<open>retweet_count\<close>, and
  \<^verbatim>\<open>in_reply_to_status_id\<close>, which the API's \<^verbatim>\<open>exclude_replies\<close> filter reads.
  \<open>None\<close> is an attribute the object lacks (a malformed item of the API).
\<close>

record status =
  s_id :: "int option"
  s_created_at :: "datetime option"
  s_text :: "string option"
  s_favorite_count :: "int option"
  s_retweet_count :: "int option"
  s_in_reply_to_status_id :: "int option"

text \<open>Reading an attribute: Python raises \<^verbatim>\<open>AttributeError\<close> when it is missing.\<close>

definition get_attr :: "string \<Rightarrow> 'a option \<Rightarrow> py_error + 'a" where
  "get_attr name v = (case v of None \<Rightarrow> Inl (AttributeError name) | Some x \<Rightarrow> Inr x)"

definition is_reply :: "status \<Rightarrow> bool" where
  "is_reply s \<longleftrightarrow> s_in_reply_to_status_id s \<noteq> None"

section \<open>Rows of tweets_df\<close>

text \<open>
  One row of the DataFrame built by \<^verbatim>\<open>get_tweets_df\<close>, with the columns
  \<^verbatim>\<open>tweet_id\<close>, \<^verbatim>\<open>created_at\<close>, \<^verbatim>\<open>text\<close>, \<^verbatim>\<open>fav\<close>, \<^verbatim>\<open>retweets\<close>.
  The DataFrame itself is the list of its rows, in the order they were appended
  (\<^verbatim>\<open>ignore_index=True\<close> numbers them 0, 1, \<dots>).
\<close>

record tweet_row =
  tweet_id :: int
  created_at :: datetime
  text_col :: string
  fav :: int
  retweets :: int

definition row_date :: "tweet_row \<Rightarrow> date" where
  "row_date r = date_of (created_at r)"

section \<open>The range of pandas timestamps\<close>

text \<open>
  \<^verbatim>\<open>pd.to_datetime\<close> (line 75) converts each \<^verbatim>\<open>created_at\<close> to a nanosecond
  \<^verbatim>\<open>Timestamp\<close>, whose range is 1677-09-21 00:12:43.145224193 to 2262-04-11
  23:47:16.854775807; outside it, it raises \<^verbatim>\<open>OutOfBoundsDatetime\<close>. The API's
  timestamps have whole seconds, so the bounds on them are 00:12:44 and 23:47:16.
  Timestamps compare as the tuple of their fields, lexicographically.
\<close>

definition dt_key :: "datetime \<Rightarrow> nat \<times> nat \<times> nat \<times> nat \<times> nat \<times> nat" where
  "dt_key t = (year t, month t, day t, hour t, minute t, second t)"

definition in_ns_range :: "datetime \<Rightarrow> bool" where
  "in_ns_range t \<longleftrightarrow> (1677, 9, 21, 0, 12, 44) \<le> dt_key t \<and> dt_key t \<le> (2262, 4, 11, 23, 47, 16)"

section \<open>Well-formed timestamps\<close>

text \<open>
  The class invariant of Python's \<^verbatim>\<open>datetime\<close>, which its constructor checks
  (\<^verbatim>\<open>MINYEAR\<close> = 1, \<^verbatim>\<open>MAXYEAR\<close> = 9999, \<^verbatim>\<open>_is_leap\<close>,
  \<^verbatim>\<open>_days_in_month\<close>), which every \<^verbatim>\<open>created_at\<close> the API hands to the
  program satisfies.
\<close>

definition is_leap :: "nat \<Rightarrow> bool" where
  "is_leap y \<longleftrightarrow> y mod 4 = 0 \<and> (y mod 100 \<noteq> 0 \<or> y mod 400 = 0)"

definition days_in_month :: "nat \<Rightarrow> nat \<Rightarrow> nat" where
  "days_in_month y m =
     (if m = 2 then (if is_leap y then 29 else 28)
      else if m = 4 \<or> m = 6 \<or> m = 9 \<or> m = 11 then 30 else 31)"

definition valid_date :: "date \<Rightarrow> bool" where
  "valid_date d =
     (case d of (y, m, dd) \<Rightarrow>
        1 \<le> y \<and> y \<le> 9999 \<and> 1 \<le> m \<and> m \<le> 12 \<and> 1 \<le> dd \<and> dd \<le> days_in_month y m)"

definition valid_datetime :: "datetime \<Rightarrow> bool" where
  "valid_datetime t \<longleftrightarrow>
     valid_date (date_of t) \<and> hour t < 24 \<and> minute t < 60 \<and> second t < 60"

lemma in_ns_range_date:
  "in_ns_range t \<Longrightarrow> (1677, 9, 21) \<le> date_of t \<and> date_of t \<le> (2262, 4, 11)"
  by (auto simp: in_ns_range_def dt_key_def date_of_def)

lemma valid_datetime_date: "valid_datetime t \<Longrightarrow> valid_date (date_of t)"
  by (simp add: valid_datetime_def)

lemma get_attr_Inr [simp]: "get_attr name v = Inr x \<longleftrightarrow> v = Some x"
  by (cases v) (simp_all add: get_attr_def)

lemma get_attr_simps [simp, exec_simps]:
  "get_attr name None = Inl (AttributeError name)"
  "get_attr name (Some x) = Inr x"
  by (simp_all add: get_attr_def)

end
