(* ===== verification/Cursor.thy ===== *)
theory Cursor
  imports Tweet
begin

text \<open>
  The external collaborator that \<^verbatim>\<open>get_tweets_df\<close> iterates over:
  \<^verbatim>\<open>tweepy.Cursor(api.user_timeline, screen_name=user_id, exclude_replies=True).items()\<close>.
  It is not part of the repository and is modelled from the spec (\S4.1, \S6):
  the Twitter API serves the user's timeline page by page, drops replies when
  \<^verbatim>\<open>exclude_replies\<close> is set, and may fail with an API error; the cursor requests
  pages 0, 1, 2, \<dots> and yields their items until a page comes back empty. There is
  no page cap, so the iteration is a \<^theory_text>\<open>partial_function (option)\<close>: \<open>None\<close> is
  an iteration that never ends. The theorems characterise exactly when it returns
  and what it yields.
\<close>

section \<open>The timeline endpoint\<close>

text \<open>
  The raw timeline of the service: the statuses of page \<open>k\<close> of a screen name, or the
  API's error for that request (unknown handle, bad credentials, rate limit).
\<close>

type_synonym timeline_api = "string \<Rightarrow> nat \<Rightarrow> py_error + status list"

text \<open>
  \<^verbatim>\<open>api.user_timeline(screen_name, exclude_replies, page)\<close>: the service filters the
  replies out of a page after selecting it, so a page may come back shorter than
  the raw page, or empty.
\<close>

definition user_timeline ::
  "timeline_api \<Rightarrow> string \<Rightarrow> bool \<Rightarrow> nat \<Rightarrow> py_error + status list" where
  "user_timeline timeline screen_name exclude_replies k =
     (case timeline screen_name k of
        Inl e \<Rightarrow> Inl e
      | Inr ss \<Rightarrow> Inr (if exclude_replies then filter (\<lambda>s. \<not> is_reply s) ss else ss))"

section \<open>Cursor iteration\<close>

text \<open>
  \<^verbatim>\<open>Cursor(...).items()\<close> from page \<open>k\<close> on: the items yielded, and how the
  iteration ended: \<open>None\<close> when a page came back empty (\<^verbatim>\<open>StopIteration\<close>),
  \<open>Some e\<close> when a page request raised \<open>e\<close>.
\<close>

partial_function (option) cursor_items ::
  "(nat \<Rightarrow> py_error + status list) \<Rightarrow> nat \<Rightarrow> (status list \<times> py_error option) option" where
  "cursor_items page k =
     (case page k of
        Inl e \<Rightarrow> Some ([], Some e)
      | Inr ss \<Rightarrow>
          if ss = [] then Some ([], None)
          else Option.bind (cursor_items page (Suc k)) (\<lambda>(xs, stop). Some (ss @ xs, stop)))"

declare cursor_items.simps [code]

text \<open>A page that ends the iteration: an empty page or a failed request.\<close>

definition page_ends :: "(nat \<Rightarrow> py_error + status list) \<Rightarrow> nat \<Rightarrow> bool" where
  "page_ends page n \<longleftrightarrow> (case page n of Inl _ \<Rightarrow> True | Inr ss \<Rightarrow> ss = [])"

text \<open>How the iteration ends at a page that ends it.\<close>

definition page_stop :: "(nat \<Rightarrow> py_error + status list) \<Rightarrow> nat \<Rightarrow> py_error option" where
  "page_stop page n = (case page n of Inl e \<Rightarrow> Some e | Inr _ \<Rightarrow> None)"

text \<open>The items of pages \<open>k\<close> to \<open>n - 1\<close>.\<close>

definition pages_items :: "(nat \<Rightarrow> py_error + status list) \<Rightarrow> nat \<Rightarrow> nat \<Rightarrow> status list" where
  "pages_items page k n = concat (map (\<lambda>i. projr (page i)) [k..<n])"

section \<open>One unfolding of the cursor\<close>

lemma cursor_items_ends:
  "page_ends page k \<Longrightarrow> cursor_items page k = Some ([], page_stop page k)"
  by (subst cursor_items.simps)
    (auto simp: page_ends_def page_stop_def split: sum.splits)

lemma cursor_items_continues:
  assumes "\<not> page_ends page k"
  shows "cursor_items page k =
    Option.bind (cursor_items page (Suc k)) (\<lambda>(xs, stop). Some (projr (page k) @ xs, stop))"
  using assms
  by (subst cursor_items.simps) (auto simp: page_ends_def split: sum.splits)

lemma pages_items_Suc:
  "k < n \<Longrightarrow> pages_items page k n = projr (page k) @ pages_items page (Suc k) n"
  by (simp add: pages_items_def upt_conv_Cons)

section \<open>When the cursor returns, and what it yields\<close>

text \<open>
  From the first page \<open>n \<ge> k\<close> that ends the iteration, the cursor returns the
  items of pages \<open>k\<close> to \<open>n - 1\<close> and the way page \<open>n\<close> ended it.
\<close>

lemma cursor_items_result:
  assumes "k \<le> n" and "page_ends page n" and "\<forall>i. k \<le> i \<and> i < n \<longrightarrow> \<not> page_ends page i"
  shows "cursor_items page k = Some (pages_items page k n, page_stop page n)"
  using assms
proof (induction "n - k" arbitrary: k)
  case 0
  then have "k = n" by simp
  with "0.prems" show ?case by (simp add: cursor_items_ends pages_items_def)
next
  case (Suc m)
  then have "k < n" and nk: "\<not> page_ends page k" by auto
  have "cursor_items page (Suc k) = Some (pages_items page (Suc k) n, page_stop page n)"
    using Suc.hyps(1) Suc.hyps(2) Suc.prems \<open>k < n\<close> by (intro Suc.hyps) auto
  then show ?case using nk \<open>k < n\<close> by (simp add: cursor_items_continues pages_items_Suc)
qed

text \<open>Partial correctness by the fixpoint induction of the definition: a cursor that
  returns has met a page that ends it.\<close>

lemma cursor_items_returns_ends:
  assumes ret: "cursor_items page k = Some r"
  shows "\<exists>n\<ge>k. page_ends page n"
proof (rule cursor_items.raw_induct [where P = "\<lambda>page k r. \<exists>n\<ge>k. page_ends page n", OF _ ret])
  fix f page k r
  assume IH: "\<And>page k r. f page k = Some r \<Longrightarrow> \<exists>n\<ge>k. page_ends page n"
    and eq: "(case page k of Inl e \<Rightarrow> Some ([], Some e)
      | Inr ss \<Rightarrow> if ss = [] then Some ([], None)
          else Option.bind (f page (Suc k)) (\<lambda>(xs, stop). Some (ss @ xs, stop))) = Some r"
  show "\<exists>n\<ge>k. page_ends page n"
  proof (cases "page_ends page k")
    case True
    then show ?thesis by blast
  next
    case False
    then obtain ss where "page k = Inr ss" "ss \<noteq> []"
      by (auto simp: page_ends_def split: sum.splits)
    with eq obtain r' where "f page (Suc k) = Some r'" by (auto simp: bind_eq_Some_conv)
    then obtain n where "Suc k \<le> n" "page_ends page n" using IH by blast
    then show ?thesis by (intro exI [of _ n]) simp
  qed
qed

lemma first_page_end:
  assumes "k \<le> m" and "page_ends page m"
  obtains n where "k \<le> n" and "page_ends page n"
    and "\<forall>i. k \<le> i \<and> i < n \<longrightarrow> \<not> page_ends page i"
proof -
  have "\<exists>n. (k \<le> n \<and> page_ends page n) \<and> (\<forall>i<n. \<not> (k \<le> i \<and> page_ends page i))"
    using assms by (intro exists_least_iff [THEN iffD1]) blast
  then show ?thesis using that by blast
qed

lemma cursor_items_Some:
  assumes "cursor_items page k = Some (xs, stop)"
  obtains n where "k \<le> n" and "page_ends page n"
    and "\<forall>i. k \<le> i \<and> i < n \<longrightarrow> \<not> page_ends page i"
    and "xs = pages_items page k n" and "stop = page_stop page n"
proof -
  obtain m where "k \<le> m" "page_ends page m"
    using cursor_items_returns_ends [OF assms] by blast
  then obtain n where n: "k \<le> n" "page_ends page n" "\<forall>i. k \<le> i \<and> i < n \<longrightarrow> \<not> page_ends page i"
    by (rule first_page_end)
  with assms have "xs = pages_items page k n" and "stop = page_stop page n"
    by (simp_all add: cursor_items_result)
  with n that show ?thesis by blast
qed

lemma pages_items_from_pages:
  assumes "\<forall>i. k \<le> i \<and> i < n \<longrightarrow> \<not> page_ends page i" and "x \<in> set (pages_items page k n)"
  shows "\<exists>i ss. k \<le> i \<and> i < n \<and> page i = Inr ss \<and> x \<in> set ss"
proof -
  obtain i where i: "k \<le> i" "i < n" "x \<in> set (projr (page i))"
    using assms(2) by (auto simp: pages_items_def)
  with assms(1) obtain ss where "page i = Inr ss"
    by (cases "page i") (auto simp: page_ends_def)
  with i show ?thesis by auto
qed

lemma cursor_items_from_pages:
  assumes "cursor_items page k = Some (xs, stop)" and "x \<in> set xs"
  shows "\<exists>i ss. k \<le> i \<and> page i = Inr ss \<and> x \<in> set ss"
proof -
  obtain n where "\<forall>i. k \<le> i \<and> i < n \<longrightarrow> \<not> page_ends page i" and "xs = pages_items page k n"
    using assms(1) by (rule cursor_items_Some)
  with assms(2) show ?thesis by (blast dest: pages_items_from_pages)
qed

lemma user_timeline_no_reply:
  "user_timeline timeline screen_name True i = Inr ss \<Longrightarrow> s \<in> set ss \<Longrightarrow> \<not> is_reply s"
  by (auto simp: user_timeline_def split: sum.splits)

lemmas cursor_exec [exec_simps] = cursor_items.simps user_timeline_def

end
