(* ===== verification/Fetcher.thy ===== *)
theory Fetcher
  imports Cursor
begin

text \<open>
  \<^verbatim>\<open>get_tweets_df(user_id)\<close> (\<^verbatim>\<open>src/app.py\<close>, lines 57--76): the loop over the
  cursor's items that builds \<^verbatim>\<open>tweets_df\<close>. Each item is read inside a
  \<^verbatim>\<open>try\<close>: an item whose text contains \<^verbatim>\<open>"RT @"\<close> is skipped, any other item
  becomes a row (its text with the line feeds removed), and an item that raises is
  printed and skipped. The loop's state is the DataFrame and what was printed; an
  exception of the cursor itself is outside the \<^verbatim>\<open>try\<close> and ends the call, and
  so is line 75, \<^verbatim>\<open>pd.to_datetime\<close>, which raises \<^verbatim>\<open>OutOfBoundsDatetime\<close> when
  a stored timestamp is outside the range of a pandas \<^verbatim>\<open>Timestamp\<close>.
\<close>

section \<open>The body of the loop\<close>

text \<open>
  Lines 61--71: the test of the text, then the Series of the five attributes, read in
  the order of the list (a missing attribute raises at the first one missing).
  \<open>Inr None\<close>: the item is a retweet and nothing is appended; \<open>Inr (Some r)\<close>: the
  row \<open>r\<close> is appended.
\<close>

definition extract_row :: "status \<Rightarrow> py_error + tweet_row option" where
  "extract_row tweet =
     py_bind (get_attr ''text'' (s_text tweet)) (\<lambda>t.
       if \<not> str_contains ''RT @'' t then
         py_bind (get_attr ''id'' (s_id tweet)) (\<lambda>i.
         py_bind (get_attr ''created_at'' (s_created_at tweet)) (\<lambda>c.
         py_bind (get_attr ''text'' (s_text tweet)) (\<lambda>t'.
         py_bind (get_attr ''favorite_count'' (s_favorite_count tweet)) (\<lambda>f.
         py_bind (get_attr ''retweet_count'' (s_retweet_count tweet)) (\<lambda>r.
           Inr (Some \<lparr>tweet_id = i, created_at = c, text_col = strip_newlines t',
                      fav = f, retweets = r\<rparr>))))))
       else Inr None)"

text \<open>The state of the loop: the DataFrame and the lines printed by \<^verbatim>\<open>print(e)\<close>.\<close>

record fetch_state =
  tweets_df :: "tweet_row list"
  stdout :: "py_error list"

definition empty_fetch_state :: fetch_state where
  "empty_fetch_state = \<lparr>tweets_df = [], stdout = []\<rparr>"

text \<open>Lines 60--74: one iteration, with the \<^verbatim>\<open>except\<close> branch.\<close>

definition fetch_step :: "fetch_state \<Rightarrow> status \<Rightarrow> fetch_state" where
  "fetch_step st tweet =
     (case extract_row tweet of
        Inl e \<Rightarrow> st\<lparr>stdout := stdout st @ [e]\<rparr>
      | Inr None \<Rightarrow> st
      | Inr (Some row) \<Rightarrow> st\<lparr>tweets_df := tweets_df st @ [row]\<rparr>)"

text \<open>Line 59: the \<^verbatim>\<open>for\<close> loop over the items.\<close>

fun fetch_loop :: "fetch_state \<Rightarrow> status list \<Rightarrow> fetch_state" where
  "fetch_loop st [] = st"
| "fetch_loop st (tweet # tweets) = fetch_loop (fetch_step st tweet) tweets"

text \<open>
  Line 75: \<^verbatim>\<open>tweets_df["created_at"] = pd.to_datetime(tweets_df["created_at"])\<close>,
  outside the \<^verbatim>\<open>try\<close>. The values are already \<^verbatim>\<open>datetime\<close>s and are kept; the
  conversion raises \<^verbatim>\<open>OutOfBoundsDatetime\<close> when one of them lies outside the range
  of a pandas \<^verbatim>\<open>Timestamp\<close>.
\<close>

definition to_datetime_rows :: "tweet_row list \<Rightarrow> py_error + tweet_row list" where
  "to_datetime_rows rows =
     (if list_all (\<lambda>r. in_ns_range (created_at r)) rows then Inr rows else Inl OutOfBoundsDatetime)"

text \<open>
  Lines 57--76. The cursor's items are processed in order; the body cannot change
  what the cursor yields, so processing the items of all pages and then raising the
  cursor's error prints the same lines as the interleaved run. The result is the
  DataFrame or the exception, with what was printed; \<open>None\<close>: the cursor never ends.
  Line 75 runs only when the loop ends normally.
\<close>

definition get_tweets_df ::
  "timeline_api \<Rightarrow> string \<Rightarrow> ((py_error + tweet_row list) \<times> py_error list) option" where
  "get_tweets_df timeline user_id =
     Option.bind (cursor_items (user_timeline timeline user_id True) 0) (\<lambda>(items, stop).
       let st = fetch_loop empty_fetch_state items
       in Some ((case stop of None \<Rightarrow> to_datetime_rows (tweets_df st) | Some e \<Rightarrow> Inl e), stdout st))"

section \<open>What one item contributes\<close>

definition row_of :: "status \<Rightarrow> tweet_row option" where
  "row_of tweet = (case extract_row tweet of Inr (Some r) \<Rightarrow> Some r | _ \<Rightarrow> None)"

definition error_of :: "status \<Rightarrow> py_error option" where
  "error_of tweet = (case extract_row tweet of Inl e \<Rightarrow> Some e | _ \<Rightarrow> None)"

lemma extract_row_Some:
  "extract_row tweet = Inr (Some r) \<longleftrightarrow>
     (\<exists>t. s_text tweet = Some t \<and> \<not> str_contains ''RT @'' t \<and>
        s_id tweet = Some (tweet_id r) \<and> s_created_at tweet = Some (created_at r) \<and>
        text_col r = strip_newlines t \<and> s_favorite_count tweet = Some (fav r) \<and>
        s_retweet_count tweet = Some (retweets r))"
  by (auto simp: extract_row_def)

lemma extract_row_None:
  "extract_row tweet = Inr None \<longleftrightarrow> (\<exists>t. s_text tweet = Some t \<and> str_contains ''RT @'' t)"
  by (auto simp: extract_row_def)

lemma row_of_Some: "row_of tweet = Some r \<longleftrightarrow> extract_row tweet = Inr (Some r)"
  by (auto simp: row_of_def split: sum.splits option.splits)

lemma fetch_step_simps:
  "tweets_df (fetch_step st tweet) = tweets_df st @ List.map_filter row_of [tweet]"
  "stdout (fetch_step st tweet) = stdout st @ List.map_filter error_of [tweet]"
  by (auto simp: fetch_step_def row_of_def error_of_def
      split: sum.splits option.splits)

section \<open>The loop\<close>

lemma fetch_loop_append:
  "fetch_loop st (xs @ ys) = fetch_loop (fetch_loop st xs) ys"
  by (induction xs arbitrary: st) simp_all

lemma fetch_loop_tweets_df:
  "tweets_df (fetch_loop st tweets) = tweets_df st @ List.map_filter row_of tweets"
  by (induction tweets arbitrary: st) (simp_all add: fetch_step_simps split: option.split)

lemma fetch_loop_stdout:
  "stdout (fetch_loop st tweets) = stdout st @ List.map_filter error_of tweets"
  by (induction tweets arbitrary: st) (simp_all add: fetch_step_simps split: option.split)

lemmas fetch_exec [exec_simps] =
  get_tweets_df_def to_datetime_rows_def in_ns_range_def dt_key_def empty_fetch_state_def fetch_step_def extract_row_def str_contains.simps
  strip_newlines_def newline_def

section \<open>The fetch as a whole\<close>

lemma get_tweets_df_eq:
  "get_tweets_df timeline user_id =
     map_option (\<lambda>(items, stop).
         ((case stop of None \<Rightarrow> to_datetime_rows (List.map_filter row_of items) | Some e \<Rightarrow> Inl e),
          List.map_filter error_of items))
       (cursor_items (user_timeline timeline user_id True) 0)"
  by (cases "cursor_items (user_timeline timeline user_id True) 0")
    (auto simp: get_tweets_df_def fetch_loop_tweets_df fetch_loop_stdout empty_fetch_state_def
      split: option.split)

lemma get_tweets_df_Some:
  assumes "get_tweets_df timeline user_id = Some (res, out)"
  obtains n where "page_ends (user_timeline timeline user_id True) n"
    and "\<forall>i. i < n \<longrightarrow> \<not> page_ends (user_timeline timeline user_id True) i"
    and "res = (case page_stop (user_timeline timeline user_id True) n of
                None \<Rightarrow> to_datetime_rows (List.map_filter row_of (pages_items (user_timeline timeline user_id True) 0 n))
              | Some e \<Rightarrow> Inl e)"
    and "out = List.map_filter error_of (pages_items (user_timeline timeline user_id True) 0 n)"
proof -
  obtain items stop where c: "cursor_items (user_timeline timeline user_id True) 0 = Some (items, stop)"
    and r: "res = (case stop of None \<Rightarrow> to_datetime_rows (List.map_filter row_of items) | Some e \<Rightarrow> Inl e)"
    and o: "out = List.map_filter error_of items"
    using assms by (auto simp: get_tweets_df_eq)
  from c obtain n where "page_ends (user_timeline timeline user_id True) n"
    and "\<forall>i. 0 \<le> i \<and> i < n \<longrightarrow> \<not> page_ends (user_timeline timeline user_id True) i"
    and "items = pages_items (user_timeline timeline user_id True) 0 n"
    and "stop = page_stop (user_timeline timeline user_id True) n"
    by (rule cursor_items_Some)
  with r o that show ?thesis by auto
qed

lemma get_tweets_df_row_source:
  assumes "get_tweets_df timeline user_id = Some (Inr rows, out)" and "r \<in> set rows"
  shows "\<exists>i ss tweet. user_timeline timeline user_id True i = Inr ss \<and> tweet \<in> set ss \<and>
    extract_row tweet = Inr (Some r)"
proof -
  obtain items where c: "cursor_items (user_timeline timeline user_id True) 0 = Some (items, None)"
    and rows: "rows = List.map_filter row_of items"
    using assms(1) by (auto simp: get_tweets_df_eq to_datetime_rows_def split: option.splits if_splits)
  from assms(2) rows obtain tweet where t: "tweet \<in> set items" "row_of tweet = Some r"
    by (auto simp: in_set_map_filter)
  from c t(1) obtain i ss where "user_timeline timeline user_id True i = Inr ss" "tweet \<in> set ss"
    by (blast dest: cursor_items_from_pages)
  with t(2) show ?thesis by (auto simp: row_of_Some)
qed

lemma get_tweets_df_rows_in_range:
  assumes "get_tweets_df timeline user_id = Some (Inr rows, out)" and "r \<in> set rows"
  shows "in_ns_range (created_at r)"
  using assms
  by (auto simp: get_tweets_df_eq to_datetime_rows_def list_all_iff split: option.splits if_splits)

lemma get_tweets_df_only_retweets:
  assumes "cursor_items (user_timeline timeline user_id True) 0 = Some (items, None)"
    and "\<forall>tweet\<in>set items. \<exists>t. s_text tweet = Some t \<and> str_contains ''RT @'' t"
  shows "get_tweets_df timeline user_id = Some (Inr [], [])"
proof -
  have "\<forall>tweet\<in>set items. extract_row tweet = Inr None"
    using assms(2) by (auto simp: extract_row_None)
  then have "List.map_filter row_of items = []" and "List.map_filter error_of items = []"
    by (auto simp: map_filter_def row_of_def error_of_def)
  with assms(1) show ?thesis by (simp add: get_tweets_df_eq to_datetime_rows_def)
qed

text \<open>
  C4. The retweet filter: every row of a successful fetch comes from a status served
  on some page of the timeline whose text does not contain \<^verbatim>\<open>"RT @"\<close>; the
  row's text is that text with its line feeds removed.
\<close>
theorem get_tweets_df_no_retweet:
  assumes "get_tweets_df timeline user_id = Some (Inr rows, out)" and "r \<in> set rows"
  shows "\<exists>i ss tweet t. user_timeline timeline user_id True i = Inr ss \<and> tweet \<in> set ss \<and>
    s_text tweet = Some t \<and> \<not> str_contains ''RT @'' t \<and> text_col r = strip_newlines t"
  using get_tweets_df_row_source [OF assms] by (auto simp: extract_row_Some)

theorem get_tweets_df_no_retweet_witness:
  "let timeline = (\<lambda>u k. if k = 0 then Inr [\<lparr>s_id = Some 1, s_created_at = Some \<lparr>year = 2024, month = 1, day = 1, hour = 9, minute = 0, second = 0\<rparr>, s_text = Some ''hello'', s_favorite_count = Some 5, s_retweet_count = Some 10, s_in_reply_to_status_id = None\<rparr>, \<lparr>s_id = Some 2, s_created_at = Some \<lparr>year = 2024, month = 1, day = 1, hour = 9, minute = 0, second = 0\<rparr>, s_text = Some ''RT @bob: hi'', s_favorite_count = Some 3, s_retweet_count = Some 1, s_in_reply_to_status_id = None\<rparr>, \<lparr>s_id = Some 3, s_created_at = Some \<lparr>year = 2024, month = 1, day = 1, hour = 9, minute = 0, second = 0\<rparr>, s_text = Some ''@bob thanks'', s_favorite_count = Some 0, s_retweet_count = Some 0, s_in_reply_to_status_id = Some 7\<rparr>] else Inr []);
       r1 = \<lparr>tweet_id = 1, created_at = \<lparr>year = 2024, month = 1, day = 1, hour = 9, minute = 0, second = 0\<rparr>, text_col = ''hello'', fav = 5, retweets = 10\<rparr>
   in get_tweets_df timeline ''alice'' = Some (Inr [r1], []) \<and> r1 \<in> set [r1] \<and>
      (\<exists>i ss tweet t. user_timeline timeline ''alice'' True i = Inr ss \<and> tweet \<in> set ss \<and>
        s_text tweet = Some t \<and> \<not> str_contains ''RT @'' t \<and> text_col r1 = strip_newlines t)"
  unfolding Let_def
  apply (rule context_conjI)
   apply (simp add: exec_simps is_reply_def)
  apply (rule conjI, simp)
  apply (erule get_tweets_df_no_retweet)
  apply simp
  done

text \<open>
  C5. Replies never reach the table: every row of a successful fetch comes from a
  status of the raw timeline that is not a reply, although the code itself never
  tests for replies (the service drops them for \<^verbatim>\<open>exclude_replies=True\<close>).
\<close>
theorem get_tweets_df_no_reply:
  assumes "get_tweets_df timeline user_id = Some (Inr rows, out)" and "r \<in> set rows"
  shows "\<exists>i ss tweet. timeline user_id i = Inr ss \<and> tweet \<in> set ss \<and> \<not> is_reply tweet \<and>
    row_of tweet = Some r"
  using get_tweets_df_row_source [OF assms]
  by (fastforce simp: user_timeline_def row_of_Some split: sum.splits)

theorem get_tweets_df_no_reply_witness:
  "let timeline = (\<lambda>u k. if k = 0 then Inr [\<lparr>s_id = Some 1, s_created_at = Some \<lparr>year = 2024, month = 1, day = 1, hour = 9, minute = 0, second = 0\<rparr>, s_text = Some ''hello'', s_favorite_count = Some 5, s_retweet_count = Some 10, s_in_reply_to_status_id = None\<rparr>, \<lparr>s_id = Some 2, s_created_at = Some \<lparr>year = 2024, month = 1, day = 1, hour = 9, minute = 0, second = 0\<rparr>, s_text = Some ''RT @bob: hi'', s_favorite_count = Some 3, s_retweet_count = Some 1, s_in_reply_to_status_id = None\<rparr>, \<lparr>s_id = Some 3, s_created_at = Some \<lparr>year = 2024, month = 1, day = 1, hour = 9, minute = 0, second = 0\<rparr>, s_text = Some ''@bob thanks'', s_favorite_count = Some 0, s_retweet_count = Some 0, s_in_reply_to_status_id = Some 7\<rparr>] else Inr []);
       r1 = \<lparr>tweet_id = 1, created_at = \<lparr>year = 2024, month = 1, day = 1, hour = 9, minute = 0, second = 0\<rparr>, text_col = ''hello'', fav = 5, retweets = 10\<rparr>
   in get_tweets_df timeline ''alice'' = Some (Inr [r1], []) \<and> r1 \<in> set [r1] \<and>
      (\<exists>i ss tweet. timeline ''alice'' i = Inr ss \<and> tweet \<in> set ss \<and> \<not> is_reply tweet \<and>
        row_of tweet = Some r1)"
  unfolding Let_def
  apply (rule context_conjI)
   apply (simp add: exec_simps is_reply_def)
  apply (rule conjI, simp)
  apply (erule get_tweets_df_no_reply)
  apply simp
  done

text \<open>
  C7. Per-item fault tolerance: an item whose processing raises changes nothing in
  the DataFrame (every other item is processed as if it were absent), its exception
  is printed at its place, and the loop goes on.
\<close>
theorem fetch_loop_skips_faulty_item:
  assumes "extract_row bad = Inl e"
  shows "tweets_df (fetch_loop st (xs @ bad # ys)) = tweets_df (fetch_loop st (xs @ ys)) \<and>
    stdout (fetch_loop st (xs @ bad # ys)) = stdout (fetch_loop st xs) @ e # List.map_filter error_of ys"
  using assms
  by (simp add: fetch_loop_tweets_df fetch_loop_stdout map_filter_append row_of_def error_of_def)

theorem fetch_loop_skips_faulty_item_witness:
  "extract_row \<lparr>s_id = Some 9, s_created_at = Some \<lparr>year = 2024, month = 1, day = 1, hour = 9, minute = 0, second = 0\<rparr>, s_text = None, s_favorite_count = Some 0, s_retweet_count = Some 0, s_in_reply_to_status_id = None\<rparr> = Inl (AttributeError ''text'') \<and>
   tweets_df (fetch_loop empty_fetch_state ([\<lparr>s_id = Some 1, s_created_at = Some \<lparr>year = 2024, month = 1, day = 1, hour = 9, minute = 0, second = 0\<rparr>, s_text = Some ''hello'', s_favorite_count = Some 5, s_retweet_count = Some 10, s_in_reply_to_status_id = None\<rparr>] @ \<lparr>s_id = Some 9, s_created_at = Some \<lparr>year = 2024, month = 1, day = 1, hour = 9, minute = 0, second = 0\<rparr>, s_text = None, s_favorite_count = Some 0, s_retweet_count = Some 0, s_in_reply_to_status_id = None\<rparr> # [\<lparr>s_id = Some 4, s_created_at = Some \<lparr>year = 2024, month = 1, day = 1, hour = 9, minute = 0, second = 0\<rparr>, s_text = Some ''bye'', s_favorite_count = Some 1, s_retweet_count = Some 2, s_in_reply_to_status_id = None\<rparr>]))
     = tweets_df (fetch_loop empty_fetch_state ([\<lparr>s_id = Some 1, s_created_at = Some \<lparr>year = 2024, month = 1, day = 1, hour = 9, minute = 0, second = 0\<rparr>, s_text = Some ''hello'', s_favorite_count = Some 5, s_retweet_count = Some 10, s_in_reply_to_status_id = None\<rparr>] @ [\<lparr>s_id = Some 4, s_created_at = Some \<lparr>year = 2024, month = 1, day = 1, hour = 9, minute = 0, second = 0\<rparr>, s_text = Some ''bye'', s_favorite_count = Some 1, s_retweet_count = Some 2, s_in_reply_to_status_id = None\<rparr>])) \<and>
   stdout (fetch_loop empty_fetch_state ([\<lparr>s_id = Some 1, s_created_at = Some \<lparr>year = 2024, month = 1, day = 1, hour = 9, minute = 0, second = 0\<rparr>, s_text = Some ''hello'', s_favorite_count = Some 5, s_retweet_count = Some 10, s_in_reply_to_status_id = None\<rparr>] @ \<lparr>s_id = Some 9, s_created_at = Some \<lparr>year = 2024, month = 1, day = 1, hour = 9, minute = 0, second = 0\<rparr>, s_text = None, s_favorite_count = Some 0, s_retweet_count = Some 0, s_in_reply_to_status_id = None\<rparr> # [\<lparr>s_id = Some 4, s_created_at = Some \<lparr>year = 2024, month = 1, day = 1, hour = 9, minute = 0, second = 0\<rparr>, s_text = Some ''bye'', s_favorite_count = Some 1, s_retweet_count = Some 2, s_in_reply_to_status_id = None\<rparr>]))
     = stdout (fetch_loop empty_fetch_state [\<lparr>s_id = Some 1, s_created_at = Some \<lparr>year = 2024, month = 1, day = 1, hour = 9, minute = 0, second = 0\<rparr>, s_text = Some ''hello'', s_favorite_count = Some 5, s_retweet_count = Some 10, s_in_reply_to_status_id = None\<rparr>]) @ AttributeError ''text'' #
       List.map_filter error_of [\<lparr>s_id = Some 4, s_created_at = Some \<lparr>year = 2024, month = 1, day = 1, hour = 9, minute = 0, second = 0\<rparr>, s_text = Some ''bye'', s_favorite_count = Some 1, s_retweet_count = Some 2, s_in_reply_to_status_id = None\<rparr>]"
  apply (rule context_conjI)
   apply (simp add: exec_simps)
  apply (erule fetch_loop_skips_faulty_item)
  done

text \<open>
  C8. What escapes \<^verbatim>\<open>get_tweets_df\<close>: when the call raises, the exception is
  either an error the API returned for a page of the timeline, or pandas'
  \<^verbatim>\<open>OutOfBoundsDatetime\<close> from line 75, raised because a row built from a served
  status has a \<^verbatim>\<open>created_at\<close> outside the range of a pandas timestamp. No
  exception of the per-item processing escapes.
\<close>
theorem get_tweets_df_raises:
  assumes "get_tweets_df timeline user_id = Some (Inl e, out)"
  shows "(\<exists>i. timeline user_id i = Inl e) \<or>
    (e = OutOfBoundsDatetime \<and> (\<exists>i ss tweet r. user_timeline timeline user_id True i = Inr ss \<and>
       tweet \<in> set ss \<and> extract_row tweet = Inr (Some r) \<and> \<not> in_ns_range (created_at r)))"
proof -
  obtain items stop where c: "cursor_items (user_timeline timeline user_id True) 0 = Some (items, stop)"
    and r: "(case stop of None \<Rightarrow> to_datetime_rows (List.map_filter row_of items) | Some e' \<Rightarrow> Inl e') =
            (Inl e :: py_error + tweet_row list)"
    using assms by (auto simp: get_tweets_df_eq)
  show ?thesis
  proof (cases stop)
    case (Some e')
    with r have stop: "stop = Some e" by simp
    obtain n where "stop = page_stop (user_timeline timeline user_id True) n"
      using c by (rule cursor_items_Some)
    with stop have "\<exists>i. timeline user_id i = Inl e"
      by (auto simp: page_stop_def user_timeline_def split: sum.splits)
    then show ?thesis ..
  next
    case None
    with r have "to_datetime_rows (List.map_filter row_of items) = Inl e" by simp
    then have e: "e = OutOfBoundsDatetime"
      and "\<exists>r\<in>set (List.map_filter row_of items). \<not> in_ns_range (created_at r)"
      by (auto simp: to_datetime_rows_def list_all_iff split: if_splits)
    then obtain tweet r where t: "tweet \<in> set items" "row_of tweet = Some r" "\<not> in_ns_range (created_at r)"
      by (auto simp: in_set_map_filter)
    from c t(1) obtain i ss where "user_timeline timeline user_id True i = Inr ss" "tweet \<in> set ss"
      by (blast dest: cursor_items_from_pages)
    with t e show ?thesis by (auto simp: row_of_Some)
  qed
qed

theorem get_tweets_df_raises_witness:
  "get_tweets_df (\<lambda>u k. if k = (0::nat) then Inr [\<lparr>s_id = Some 1, s_created_at = Some \<lparr>year = 1650, month = 1, day = 1, hour = 9, minute = 0, second = 0\<rparr>, s_text = Some ''hello'', s_favorite_count = Some 5, s_retweet_count = Some 10, s_in_reply_to_status_id = None\<rparr>] else Inr []) ''alice''
     = Some (Inl OutOfBoundsDatetime, []) \<and>
   \<not> in_ns_range \<lparr>year = 1650, month = 1, day = 1, hour = 9, minute = 0, second = 0\<rparr>"
proof -
  have h: "get_tweets_df (\<lambda>u k. if k = (0::nat) then Inr [\<lparr>s_id = Some 1, s_created_at = Some \<lparr>year = 1650, month = 1, day = 1, hour = 9, minute = 0, second = 0\<rparr>, s_text = Some ''hello'', s_favorite_count = Some 5, s_retweet_count = Some 10, s_in_reply_to_status_id = None\<rparr>] else Inr []) ''alice''
      = Some (Inl OutOfBoundsDatetime, [])"
    by (simp add: exec_simps is_reply_def)
  have "\<not> in_ns_range \<lparr>year = 1650, month = 1, day = 1, hour = 9, minute = 0, second = 0\<rparr>"
    by (simp add: in_ns_range_def dt_key_def)
  with get_tweets_df_raises [OF h] h show ?thesis by blast
qed

text \<open>
  C9. Termination: \<^verbatim>\<open>get_tweets_df\<close> returns (a DataFrame or an exception) if and
  only if some page of the filtered timeline is empty or fails; with no such page
  the loop runs forever, as the code has no page cap.
\<close>
theorem get_tweets_df_returns_iff:
  "(\<exists>r. get_tweets_df timeline user_id = Some r) \<longleftrightarrow>
   (\<exists>n. page_ends (user_timeline timeline user_id True) n)"
proof
  assume "\<exists>r. get_tweets_df timeline user_id = Some r"
  then obtain res out where "get_tweets_df timeline user_id = Some (res, out)" by auto
  then show "\<exists>n. page_ends (user_timeline timeline user_id True) n"
    by (rule get_tweets_df_Some) blast
next
  assume "\<exists>n. page_ends (user_timeline timeline user_id True) n"
  then obtain m where "page_ends (user_timeline timeline user_id True) m" by blast
  then obtain n where "0 \<le> n" "page_ends (user_timeline timeline user_id True) n"
    "\<forall>i. 0 \<le> i \<and> i < n \<longrightarrow> \<not> page_ends (user_timeline timeline user_id True) i"
    using first_page_end [of 0 m] by blast
  then have "cursor_items (user_timeline timeline user_id True) 0 \<noteq> None"
    by (simp add: cursor_items_result)
  then show "\<exists>r. get_tweets_df timeline user_id = Some r"
    by (auto simp: get_tweets_df_eq)
qed
text \<open>
  C10. The fetch, exactly: if page \<open>n\<close> is the first page of the filtered timeline
  that is empty or fails, \<^verbatim>\<open>get_tweets_df\<close> returns the rows of the items of the
  pages before it (or the error of page \<open>n\<close>), and prints the exceptions of
  those items in order.
\<close>

theorem get_tweets_df_result:
  assumes "page_ends (user_timeline timeline user_id True) n"
    and "\<forall>i<n. \<not> page_ends (user_timeline timeline user_id True) i"
  shows "get_tweets_df timeline user_id =
    Some ((case page_stop (user_timeline timeline user_id True) n of
             None \<Rightarrow> to_datetime_rows (List.map_filter row_of (pages_items (user_timeline timeline user_id True) 0 n))
           | Some e \<Rightarrow> Inl e),
          List.map_filter error_of (pages_items (user_timeline timeline user_id True) 0 n))"
  using cursor_items_result [of 0 n] assms by (simp add: get_tweets_df_eq)

theorem get_tweets_df_result_witness:
  "page_ends (user_timeline (\<lambda>u k. if k = (0::nat) then Inr [\<lparr>s_id = Some 1, s_created_at = Some \<lparr>year = 2024, month = 1, day = 1, hour = 9, minute = 0, second = 0\<rparr>, s_text = Some (''hello''), s_favorite_count = Some 5, s_retweet_count = Some 10, s_in_reply_to_status_id = None\<rparr>] else Inr []) ''alice'' True) 1 \<and>
   \<not> page_ends (user_timeline (\<lambda>u k. if k = (0::nat) then Inr [\<lparr>s_id = Some 1, s_created_at = Some \<lparr>year = 2024, month = 1, day = 1, hour = 9, minute = 0, second = 0\<rparr>, s_text = Some (''hello''), s_favorite_count = Some 5, s_retweet_count = Some 10, s_in_reply_to_status_id = None\<rparr>] else Inr []) ''alice'' True) 0 \<and>
   get_tweets_df (\<lambda>u k. if k = (0::nat) then Inr [\<lparr>s_id = Some 1, s_created_at = Some \<lparr>year = 2024, month = 1, day = 1, hour = 9, minute = 0, second = 0\<rparr>, s_text = Some (''hello''), s_favorite_count = Some 5, s_retweet_count = Some 10, s_in_reply_to_status_id = None\<rparr>] else Inr []) ''alice'' =
    Some ((case page_stop (user_timeline (\<lambda>u k. if k = (0::nat) then Inr [\<lparr>s_id = Some 1, s_created_at = Some \<lparr>year = 2024, month = 1, day = 1, hour = 9, minute = 0, second = 0\<rparr>, s_text = Some (''hello''), s_favorite_count = Some 5, s_retweet_count = Some 10, s_in_reply_to_status_id = None\<rparr>] else Inr []) ''alice'' True) 1 of
             None \<Rightarrow> to_datetime_rows (List.map_filter row_of (pages_items (user_timeline (\<lambda>u k. if k = (0::nat) then Inr [\<lparr>s_id = Some 1, s_created_at = Some \<lparr>year = 2024, month = 1, day = 1, hour = 9, minute = 0, second = 0\<rparr>, s_text = Some (''hello''), s_favorite_count = Some 5, s_retweet_count = Some 10, s_in_reply_to_status_id = None\<rparr>] else Inr []) ''alice'' True) 0 1))
           | Some e \<Rightarrow> Inl e),
          List.map_filter error_of (pages_items (user_timeline (\<lambda>u k. if k = (0::nat) then Inr [\<lparr>s_id = Some 1, s_created_at = Some \<lparr>year = 2024, month = 1, day = 1, hour = 9, minute = 0, second = 0\<rparr>, s_text = Some (''hello''), s_favorite_count = Some 5, s_retweet_count = Some 10, s_in_reply_to_status_id = None\<rparr>] else Inr []) ''alice'' True) 0 1))"
proof -
  have h1: "page_ends (user_timeline (\<lambda>u k. if k = (0::nat) then Inr [\<lparr>s_id = Some 1, s_created_at = Some \<lparr>year = 2024, month = 1, day = 1, hour = 9, minute = 0, second = 0\<rparr>, s_text = Some (''hello''), s_favorite_count = Some 5, s_retweet_count = Some 10, s_in_reply_to_status_id = None\<rparr>] else Inr []) ''alice'' True) 1"
    by (simp add: page_ends_def user_timeline_def)
  have h2: "\<forall>i<1. \<not> page_ends (user_timeline (\<lambda>u k. if k = (0::nat) then Inr [\<lparr>s_id = Some 1, s_created_at = Some \<lparr>year = 2024, month = 1, day = 1, hour = 9, minute = 0, second = 0\<rparr>, s_text = Some (''hello''), s_favorite_count = Some 5, s_retweet_count = Some 10, s_in_reply_to_status_id = None\<rparr>] else Inr []) ''alice'' True) i"
    by (simp add: page_ends_def user_timeline_def is_reply_def)
  have h2': "\<not> page_ends (user_timeline (\<lambda>u k. if k = (0::nat) then Inr [\<lparr>s_id = Some 1, s_created_at = Some \<lparr>year = 2024, month = 1, day = 1, hour = 9, minute = 0, second = 0\<rparr>, s_text = Some (''hello''), s_favorite_count = Some 5, s_retweet_count = Some 10, s_in_reply_to_status_id = None\<rparr>] else Inr []) ''alice'' True) 0"
    using h2 by blast
  show ?thesis using h1 h2' get_tweets_df_result [OF h1 h2] by blast
qed

text \<open>
  C11. The retweet filter tests the raw text, before the line feeds are removed: a
  stored text that contains \<^verbatim>\<open>"RT @"\<close> comes from a served status whose raw text
  did not contain it and had a line feed inside the marker.
\<close>

theorem get_tweets_df_marker_only_via_newline:
  assumes "get_tweets_df timeline user_id = Some (Inr rows, out)" and "r \<in> set rows"
    and "str_contains ''RT @'' (text_col r)"
  shows "\<exists>i ss tweet t. user_timeline timeline user_id True i = Inr ss \<and> tweet \<in> set ss \<and>
    s_text tweet = Some t \<and> \<not> str_contains ''RT @'' t \<and> newline \<in> set t \<and> text_col r = strip_newlines t"
proof -
  obtain i ss tweet t where src: "user_timeline timeline user_id True i = Inr ss" "tweet \<in> set ss"
    "s_text tweet = Some t" "\<not> str_contains ''RT @'' t" "text_col r = strip_newlines t"
    using get_tweets_df_row_source [OF assms(1,2)] by (auto simp: extract_row_Some)
  have "newline \<in> set t"
  proof (rule ccontr)
    assume "newline \<notin> set t"
    then have "strip_newlines t = t" by (auto simp: strip_newlines_def filter_id_conv)
    with src(4,5) assms(3) show False by simp
  qed
  with src show ?thesis by blast
qed

theorem get_tweets_df_marker_only_via_newline_witness:
  "get_tweets_df (\<lambda>u k. if k = (0::nat) then Inr [\<lparr>s_id = Some 2, s_created_at = Some \<lparr>year = 2024, month = 1, day = 1, hour = 9, minute = 0, second = 0\<rparr>, s_text = Some (''RT'' @ [CHR 0x0A] @ '' @bob: hi''), s_favorite_count = Some 1, s_retweet_count = Some 1, s_in_reply_to_status_id = None\<rparr>] else Inr []) ''alice'' = Some (Inr [\<lparr>tweet_id = 2, created_at = \<lparr>year = 2024, month = 1, day = 1, hour = 9, minute = 0, second = 0\<rparr>, text_col = ''RT @bob: hi'', fav = 1, retweets = 1\<rparr>], []) \<and>
   \<lparr>tweet_id = 2, created_at = \<lparr>year = 2024, month = 1, day = 1, hour = 9, minute = 0, second = 0\<rparr>, text_col = ''RT @bob: hi'', fav = 1, retweets = 1\<rparr> \<in> set [\<lparr>tweet_id = 2, created_at = \<lparr>year = 2024, month = 1, day = 1, hour = 9, minute = 0, second = 0\<rparr>, text_col = ''RT @bob: hi'', fav = 1, retweets = 1\<rparr>] \<and> str_contains ''RT @'' (text_col \<lparr>tweet_id = 2, created_at = \<lparr>year = 2024, month = 1, day = 1, hour = 9, minute = 0, second = 0\<rparr>, text_col = ''RT @bob: hi'', fav = 1, retweets = 1\<rparr>) \<and>
   (\<exists>i ss tweet t. user_timeline (\<lambda>u k. if k = (0::nat) then Inr [\<lparr>s_id = Some 2, s_created_at = Some \<lparr>year = 2024, month = 1, day = 1, hour = 9, minute = 0, second = 0\<rparr>, s_text = Some (''RT'' @ [CHR 0x0A] @ '' @bob: hi''), s_favorite_count = Some 1, s_retweet_count = Some 1, s_in_reply_to_status_id = None\<rparr>] else Inr []) ''alice'' True i = Inr ss \<and> tweet \<in> set ss \<and> s_text tweet = Some t \<and>
      \<not> str_contains ''RT @'' t \<and> newline \<in> set t \<and> text_col \<lparr>tweet_id = 2, created_at = \<lparr>year = 2024, month = 1, day = 1, hour = 9, minute = 0, second = 0\<rparr>, text_col = ''RT @bob: hi'', fav = 1, retweets = 1\<rparr> = strip_newlines t)"
proof -
  have h1: "get_tweets_df (\<lambda>u k. if k = (0::nat) then Inr [\<lparr>s_id = Some 2, s_created_at = Some \<lparr>year = 2024, month = 1, day = 1, hour = 9, minute = 0, second = 0\<rparr>, s_text = Some (''RT'' @ [CHR 0x0A] @ '' @bob: hi''), s_favorite_count = Some 1, s_retweet_count = Some 1, s_in_reply_to_status_id = None\<rparr>] else Inr []) ''alice'' = Some (Inr [\<lparr>tweet_id = 2, created_at = \<lparr>year = 2024, month = 1, day = 1, hour = 9, minute = 0, second = 0\<rparr>, text_col = ''RT @bob: hi'', fav = 1, retweets = 1\<rparr>], [])"
    by (simp add: exec_simps is_reply_def)
  have h2: "\<lparr>tweet_id = 2, created_at = \<lparr>year = 2024, month = 1, day = 1, hour = 9, minute = 0, second = 0\<rparr>, text_col = ''RT @bob: hi'', fav = 1, retweets = 1\<rparr> \<in> set [\<lparr>tweet_id = 2, created_at = \<lparr>year = 2024, month = 1, day = 1, hour = 9, minute = 0, second = 0\<rparr>, text_col = ''RT @bob: hi'', fav = 1, retweets = 1\<rparr>]" by simp
  have h3: "str_contains ''RT @'' (text_col \<lparr>tweet_id = 2, created_at = \<lparr>year = 2024, month = 1, day = 1, hour = 9, minute = 0, second = 0\<rparr>, text_col = ''RT @bob: hi'', fav = 1, retweets = 1\<rparr>)" by simp
  show ?thesis using h1 h2 h3 get_tweets_df_marker_only_via_newline [OF h1 h2 h3] by blast
qed

text \<open>
  C12. Every text stored in \<^verbatim>\<open>tweets_df\<close> is free of line feeds.
\<close>

theorem get_tweets_df_text_no_newline:
  assumes "get_tweets_df timeline user_id = Some (Inr rows, out)" and "r \<in> set rows"
  shows "newline \<notin> set (text_col r)"
  using get_tweets_df_row_source [OF assms]
  by (auto simp: extract_row_Some strip_newlines_no_newline)

theorem get_tweets_df_text_no_newline_witness:
  "get_tweets_df (\<lambda>u k. if k = (0::nat) then Inr [\<lparr>s_id = Some 3, s_created_at = Some \<lparr>year = 2024, month = 1, day = 1, hour = 9, minute = 0, second = 0\<rparr>, s_text = Some (''line one'' @ [CHR 0x0A] @ ''line two''), s_favorite_count = Some 2, s_retweet_count = Some 3, s_in_reply_to_status_id = None\<rparr>] else Inr []) ''alice''
     = Some (Inr [\<lparr>tweet_id = 3, created_at = \<lparr>year = 2024, month = 1, day = 1, hour = 9, minute = 0, second = 0\<rparr>, text_col = ''line oneline two'', fav = 2, retweets = 3\<rparr>], []) \<and>
   \<lparr>tweet_id = 3, created_at = \<lparr>year = 2024, month = 1, day = 1, hour = 9, minute = 0, second = 0\<rparr>, text_col = ''line oneline two'', fav = 2, retweets = 3\<rparr> \<in> set [\<lparr>tweet_id = 3, created_at = \<lparr>year = 2024, month = 1, day = 1, hour = 9, minute = 0, second = 0\<rparr>, text_col = ''line oneline two'', fav = 2, retweets = 3\<rparr>] \<and>
   newline \<notin> set (text_col \<lparr>tweet_id = 3, created_at = \<lparr>year = 2024, month = 1, day = 1, hour = 9, minute = 0, second = 0\<rparr>, text_col = ''line oneline two'', fav = 2, retweets = 3\<rparr>)"
proof -
  have h1: "get_tweets_df (\<lambda>u k. if k = (0::nat) then Inr [\<lparr>s_id = Some 3, s_created_at = Some \<lparr>year = 2024, month = 1, day = 1, hour = 9, minute = 0, second = 0\<rparr>, s_text = Some (''line one'' @ [CHR 0x0A] @ ''line two''), s_favorite_count = Some 2, s_retweet_count = Some 3, s_in_reply_to_status_id = None\<rparr>] else Inr []) ''alice''
     = Some (Inr [\<lparr>tweet_id = 3, created_at = \<lparr>year = 2024, month = 1, day = 1, hour = 9, minute = 0, second = 0\<rparr>, text_col = ''line oneline two'', fav = 2, retweets = 3\<rparr>], [])"
    by (simp add: exec_simps is_reply_def)
  have h2: "\<lparr>tweet_id = 3, created_at = \<lparr>year = 2024, month = 1, day = 1, hour = 9, minute = 0, second = 0\<rparr>, text_col = ''line oneline two'', fav = 2, retweets = 3\<rparr> \<in> set [\<lparr>tweet_id = 3, created_at = \<lparr>year = 2024, month = 1, day = 1, hour = 9, minute = 0, second = 0\<rparr>, text_col = ''line oneline two'', fav = 2, retweets = 3\<rparr>]"
    by simp
  show ?thesis using h1 h2 get_tweets_df_text_no_newline [OF h1 h2] by blast
qed

text \<open>
  C22. Every item of the loop is accounted for: each one either appends a row, or
  prints one exception, or is a retweet skipped silently.
\<close>

theorem fetch_loop_accounting:
  "length (tweets_df (fetch_loop st tweets)) + length (stdout (fetch_loop st tweets)) +
     length (filter (\<lambda>tweet. extract_row tweet = Inr None) tweets)
   = length (tweets_df st) + length (stdout st) + length tweets"
  by (induction tweets arbitrary: st) (auto simp: fetch_step_def split: sum.split option.split)

text \<open>
  C23. Round trip of a row through a status: a status carrying the five values of a
  row is read back by the loop body as that same row, provided the row's text has no
  line feed and no \<^verbatim>\<open>"RT @"\<close> (rows stored by the fetch have no line feed, C12;
  C11 shows that one may contain \<^verbatim>\<open>"RT @"\<close>).
\<close>

theorem extract_row_roundtrip:
  assumes "newline \<notin> set (text_col r)" and "\<not> str_contains ''RT @'' (text_col r)"
  shows "extract_row \<lparr>s_id = Some (tweet_id r), s_created_at = Some (created_at r),
      s_text = Some (text_col r), s_favorite_count = Some (fav r), s_retweet_count = Some (retweets r),
      s_in_reply_to_status_id = x\<rparr> = Inr (Some r)"
proof -
  have "strip_newlines (text_col r) = text_col r"
    using assms(1) by (auto simp: strip_newlines_def filter_id_conv)
  with assms(2) show ?thesis by (cases r) (simp add: extract_row_def)
qed

theorem extract_row_roundtrip_witness:
  "newline \<notin> set (text_col \<lparr>tweet_id = 1, created_at = \<lparr>year = 2024, month = 1, day = 1, hour = 9, minute = 0, second = 0\<rparr>, text_col = ''hello'', fav = 5, retweets = 10\<rparr>) \<and> \<not> str_contains ''RT @'' (text_col \<lparr>tweet_id = 1, created_at = \<lparr>year = 2024, month = 1, day = 1, hour = 9, minute = 0, second = 0\<rparr>, text_col = ''hello'', fav = 5, retweets = 10\<rparr>) \<and>
   extract_row \<lparr>s_id = Some (tweet_id \<lparr>tweet_id = 1, created_at = \<lparr>year = 2024, month = 1, day = 1, hour = 9, minute = 0, second = 0\<rparr>, text_col = ''hello'', fav = 5, retweets = 10\<rparr>), s_created_at = Some (created_at \<lparr>tweet_id = 1, created_at = \<lparr>year = 2024, month = 1, day = 1, hour = 9, minute = 0, second = 0\<rparr>, text_col = ''hello'', fav = 5, retweets = 10\<rparr>), s_text = Some (text_col \<lparr>tweet_id = 1, created_at = \<lparr>year = 2024, month = 1, day = 1, hour = 9, minute = 0, second = 0\<rparr>, text_col = ''hello'', fav = 5, retweets = 10\<rparr>), s_favorite_count = Some (fav \<lparr>tweet_id = 1, created_at = \<lparr>year = 2024, month = 1, day = 1, hour = 9, minute = 0, second = 0\<rparr>, text_col = ''hello'', fav = 5, retweets = 10\<rparr>), s_retweet_count = Some (retweets \<lparr>tweet_id = 1, created_at = \<lparr>year = 2024, month = 1, day = 1, hour = 9, minute = 0, second = 0\<rparr>, text_col = ''hello'', fav = 5, retweets = 10\<rparr>), s_in_reply_to_status_id = None\<rparr> = Inr (Some \<lparr>tweet_id = 1, created_at = \<lparr>year = 2024, month = 1, day = 1, hour = 9, minute = 0, second = 0\<rparr>, text_col = ''hello'', fav = 5, retweets = 10\<rparr>)"
proof -
  have h1: "newline \<notin> set (text_col \<lparr>tweet_id = 1, created_at = \<lparr>year = 2024, month = 1, day = 1, hour = 9, minute = 0, second = 0\<rparr>, text_col = ''hello'', fav = 5, retweets = 10\<rparr>)" by (simp add: newline_def)
  have h2: "\<not> str_contains ''RT @'' (text_col \<lparr>tweet_id = 1, created_at = \<lparr>year = 2024, month = 1, day = 1, hour = 9, minute = 0, second = 0\<rparr>, text_col = ''hello'', fav = 5, retweets = 10\<rparr>)" by simp
  show ?thesis using h1 h2 extract_row_roundtrip [OF h1 h2, of None] by blast
qed

end
