(* ===== verification/Aggregate.thy ===== *)
theory Aggregate
  imports Tweet
begin

text \<open>
  The two views computed from \<^verbatim>\<open>tweets_df\<close> (\<^verbatim>\<open>src/app.py\<close>, lines 90--97):
  \<^verbatim>\<open>get_grouped_df\<close> groups the rows by the calendar date of \<^verbatim>\<open>created_at\<close>, sums the
  numeric columns of each group and orders the groups by date, newest first;
  \<^verbatim>\<open>get_sorted_df\<close> orders the rows by \<^verbatim>\<open>retweets\<close>, largest first. Both orderings
  are \<^verbatim>\<open>DataFrame.sort_values(by=..., ascending=False)\<close>, modelled once as
  \<open>sort_values_desc\<close>. pandas does not fix the order of rows with equal keys, so
  the theorems go through the contract \<open>ranked_ok\<close> (same rows, keys
  non-increasing), which every tie order satisfies.
\<close>

section \<open>DataFrame.sort_values(by=key, ascending=False)\<close>

text \<open>
  One resolution of the unspecified tie order: a stable insertion sort, non-increasing
  in the key.
\<close>

fun insort_desc :: "('a \<Rightarrow> 'k::linorder) \<Rightarrow> 'a \<Rightarrow> 'a list \<Rightarrow> 'a list" where
  "insort_desc f x [] = [x]"
| "insort_desc f x (y # ys) = (if f y \<le> f x then x # y # ys else y # insort_desc f x ys)"

fun sort_values_desc :: "('a \<Rightarrow> 'k::linorder) \<Rightarrow> 'a list \<Rightarrow> 'a list" where
  "sort_values_desc f [] = []"
| "sort_values_desc f (x # xs) = insort_desc f x (sort_values_desc f xs)"

text \<open>
  The contract of \<^verbatim>\<open>sort_values(by=f, ascending=False)\<close>: \<open>ys\<close> holds the rows of
  \<open>xs\<close> (as a multiset) in non-increasing order of \<open>f\<close>.
\<close>

definition ranked_ok :: "('a \<Rightarrow> 'k::linorder) \<Rightarrow> 'a list \<Rightarrow> 'a list \<Rightarrow> bool" where
  "ranked_ok f xs ys \<longleftrightarrow> mset ys = mset xs \<and> sorted_desc f ys"

section \<open>DataFrame.groupby(date).sum()\<close>

text \<open>
  A row of \<^verbatim>\<open>grouped_df\<close>: the group's date (the index) and the sums of the
  columns \<^verbatim>\<open>fav\<close> and \<^verbatim>\<open>retweets\<close> over the group. pandas also sums the
  \<^verbatim>\<open>tweet_id\<close> column, held as \<^verbatim>\<open>int64\<close>; with ids near \<open>1.7 * 10^18\<close> that sum
  wraps around or is rounded to \<^verbatim>\<open>float64\<close>, depending on the pandas version, and
  it is not modelled (nor the \<^verbatim>\<open>text\<close> column). The counts \<^verbatim>\<open>fav\<close> and
  \<^verbatim>\<open>retweets\<close> are also \<^verbatim>\<open>int64\<close>; their sums stay far below \<open>2^63\<close>, so they
  are modelled exactly as \<open>int\<close>.
\<close>

record group_row =
  g_date :: date
  g_fav :: int
  g_retweets :: int

definition rows_on :: "date \<Rightarrow> tweet_row list \<Rightarrow> tweet_row list" where
  "rows_on d rows = filter (\<lambda>r. row_date r = d) rows"

definition group_sum :: "tweet_row list \<Rightarrow> date \<Rightarrow> group_row" where
  "group_sum rows d =
     (let g = rows_on d rows
      in \<lparr>g_date = d, g_fav = sum_list (map fav g), g_retweets = sum_list (map retweets g)\<rparr>)"

text \<open>
  \<^verbatim>\<open>tweets_df.groupby(tweets_df.created_at.dt.date).sum()\<close>: one row per distinct
  date, the groups in ascending order of their key (\<^verbatim>\<open>groupby\<close> sorts by default).
\<close>

definition groupby_date_sum :: "tweet_row list \<Rightarrow> group_row list" where
  "groupby_date_sum rows = map (group_sum rows) (sort (remdups (map row_date rows)))"

text \<open>Lines 90--92.\<close>

definition get_grouped_df :: "tweet_row list \<Rightarrow> group_row list" where
  "get_grouped_df tweets_df = sort_values_desc g_date (groupby_date_sum tweets_df)"

text \<open>Lines 95--97.\<close>

definition get_sorted_df :: "tweet_row list \<Rightarrow> tweet_row list" where
  "get_sorted_df tweets_df = sort_values_desc retweets tweets_df"

section \<open>The sort\<close>

lemma mset_insort_desc: "mset (insort_desc f x xs) = add_mset x (mset xs)"
  by (induction xs) auto

lemma set_insort_desc: "set (insort_desc f x xs) = insert x (set xs)"
  by (simp flip: set_mset_mset add: mset_insort_desc)

lemma sorted_desc_insort_desc [desc_sorted]:
  "sorted_desc f xs \<Longrightarrow> sorted_desc f (insort_desc f x xs)"
  by (induction xs) (auto simp: set_insort_desc)

lemma mset_sort_values_desc: "mset (sort_values_desc f xs) = mset xs"
  by (induction xs) (simp_all add: mset_insort_desc)

lemma sorted_desc_sort_values_desc [desc_sorted]: "sorted_desc f (sort_values_desc f xs)"
  by (induction xs) (simp_all add: desc_sorted)

lemma set_sort_values_desc [simp]: "set (sort_values_desc f xs) = set xs"
  by (simp flip: set_mset_mset add: mset_sort_values_desc)

lemma ranked_ok_sort_values_desc: "ranked_ok f xs (sort_values_desc f xs)"
  by (simp add: ranked_ok_def mset_sort_values_desc sorted_desc_sort_values_desc)

lemma ranked_ok_keys: "ranked_ok f xs ys \<Longrightarrow> map f ys = rev (sort (map f xs))"
  by (simp add: ranked_ok_def sorted_desc_keys_eq_rev_sort)

section \<open>The groups\<close>

lemma g_date_group_sum [simp]: "g_date (group_sum rows d) = d"
  by (simp add: group_sum_def Let_def)

lemma groupby_dates: "map g_date (groupby_date_sum rows) = sort (remdups (map row_date rows))"
  by (simp add: groupby_date_sum_def comp_def)

lemma set_groupby_date_sum:
  "set (groupby_date_sum rows) = group_sum rows ` row_date ` set rows"
  by (simp add: groupby_date_sum_def)

lemma group_of_date:
  "g \<in> set (groupby_date_sum rows) \<Longrightarrow> g = group_sum rows (g_date g)"
  by (auto simp: set_groupby_date_sum)

lemma grouped_dates_rev_sort:
  "map g_date (get_grouped_df rows) = rev (sort (remdups (map row_date rows)))"
proof -
  have "ranked_ok g_date (groupby_date_sum rows) (get_grouped_df rows)"
    by (simp add: get_grouped_df_def ranked_ok_sort_values_desc)
  then show ?thesis by (simp add: ranked_ok_keys groupby_dates sorted_sort_id)
qed

lemma sum_groupby_date_sum:
  fixes v :: "tweet_row \<Rightarrow> int"
  shows "(\<Sum>d\<leftarrow>sort (remdups (map row_date rows)). sum_list (map v (rows_on d rows)))
    = sum_list (map v rows)"
  unfolding rows_on_def by (rule sum_list_groups) auto

lemma set_get_grouped_df: "set (get_grouped_df rows) = group_sum rows ` row_date ` set rows"
  by (simp add: get_grouped_df_def set_groupby_date_sum)

lemma mset_get_grouped_df: "mset (get_grouped_df rows) = mset (groupby_date_sum rows)"
  by (simp add: get_grouped_df_def mset_sort_values_desc)

lemmas aggregate_exec [exec_simps] =
  get_grouped_df_def get_sorted_df_def groupby_date_sum_def group_sum_def rows_on_def
  row_date_def date_of_def

section \<open>Properties of the grouped view\<close>

text \<open>
  C1. Aggregation is correct: every row of \<^verbatim>\<open>grouped_df\<close> belongs to a date on
  which some tweet was posted, and its \<^verbatim>\<open>fav\<close> and \<^verbatim>\<open>retweets\<close> are the sums of
  those columns over exactly the tweets of that date.
\<close>

theorem get_grouped_df_sums:
  assumes "g \<in> set (get_grouped_df tweets_df)"
  shows "g_date g \<in> row_date ` set tweets_df \<and>
    g_fav g = sum_list (map fav (filter (\<lambda>r. row_date r = g_date g) tweets_df)) \<and>
    g_retweets g = sum_list (map retweets (filter (\<lambda>r. row_date r = g_date g) tweets_df))"
  using assms by (auto simp: set_get_grouped_df group_sum_def rows_on_def Let_def)

theorem get_grouped_df_sums_witness:
  "let d1 = \<lparr>year = 2024, month = 1, day = 1, hour = 9, minute = 0, second = 0\<rparr>;
       d2 = \<lparr>year = 2024, month = 1, day = 2, hour = 9, minute = 0, second = 0\<rparr>;
       rows = [\<lparr>tweet_id = 1, created_at = d1, text_col = ''a'', fav = 5, retweets = 10\<rparr>,
               \<lparr>tweet_id = 2, created_at = d1, text_col = ''b'', fav = 3, retweets = 1\<rparr>,
               \<lparr>tweet_id = 3, created_at = d2, text_col = ''c'', fav = 0, retweets = 20\<rparr>];
       g = \<lparr>g_date = (2024, 1, 1), g_fav = 8, g_retweets = 11\<rparr>
   in g \<in> set (get_grouped_df rows) \<and>
      g_date g \<in> row_date ` set rows \<and>
      g_fav g = sum_list (map fav (filter (\<lambda>r. row_date r = g_date g) rows)) \<and>
      g_retweets g = sum_list (map retweets (filter (\<lambda>r. row_date r = g_date g) rows))"
  unfolding Let_def
proof (rule conjI)
  show "\<lparr>g_date = (2024, 1, 1), g_fav = 8, g_retweets = 11\<rparr>
    \<in> set (get_grouped_df
      [\<lparr>tweet_id = 1, created_at = \<lparr>year = 2024, month = 1, day = 1, hour = 9, minute = 0, second = 0\<rparr>,
         text_col = ''a'', fav = 5, retweets = 10\<rparr>,
       \<lparr>tweet_id = 2, created_at = \<lparr>year = 2024, month = 1, day = 1, hour = 9, minute = 0, second = 0\<rparr>,
         text_col = ''b'', fav = 3, retweets = 1\<rparr>,
       \<lparr>tweet_id = 3, created_at = \<lparr>year = 2024, month = 1, day = 2, hour = 9, minute = 0, second = 0\<rparr>,
         text_col = ''c'', fav = 0, retweets = 20\<rparr>])"
    (is "?g \<in> set (get_grouped_df ?rows)")
    by (simp add: exec_simps)
  then show "g_date ?g \<in> row_date ` set ?rows \<and>
      g_fav ?g = sum_list (map fav (filter (\<lambda>r. row_date r = g_date ?g) ?rows)) \<and>
      g_retweets ?g = sum_list (map retweets (filter (\<lambda>r. row_date r = g_date ?g) ?rows))"
    by (rule get_grouped_df_sums)
qed

text \<open>
  C2. The grouped view is ordered by date strictly descending, so no date occurs
  twice, and its dates are exactly the dates on which the user posted.
\<close>

theorem get_grouped_df_dates:
  "sorted_wrt (>) (map g_date (get_grouped_df tweets_df)) \<and>
   set (map g_date (get_grouped_df tweets_df)) = row_date ` set tweets_df"
proof -
  have "sorted_wrt (<) (sort (remdups (map row_date tweets_df)))"
    by (simp add: strict_sorted_iff)
  then show ?thesis by (simp add: grouped_dates_rev_sort sorted_wrt_rev)
qed

section \<open>Properties of the ranked view\<close>

text \<open>
  C3. The ranked view is a permutation of the tweets (the same multiset of rows) in
  non-increasing order of \<^verbatim>\<open>retweets\<close>.
\<close>

theorem get_sorted_df_ranked:
  "mset (get_sorted_df tweets_df) = mset tweets_df \<and> sorted_desc retweets (get_sorted_df tweets_df)"
  using ranked_ok_sort_values_desc [of retweets tweets_df]
  by (simp add: get_sorted_df_def ranked_ok_def)

text \<open>
  C13. Grouping loses and duplicates nothing: the column totals of the grouped view
  equal the column totals of the tweets.
\<close>

theorem get_grouped_df_totals:
  "sum_list (map g_fav (get_grouped_df tweets_df)) = sum_list (map fav tweets_df) \<and>
   sum_list (map g_retweets (get_grouped_df tweets_df)) = sum_list (map retweets tweets_df)"
proof -
  have "sum_list (map v (get_grouped_df tweets_df)) = sum_list (map v (groupby_date_sum tweets_df))"
    for v :: "group_row \<Rightarrow> int"
    using mset_get_grouped_df by (metis mset_map sum_mset_sum_list)
  then show ?thesis
    by (simp add: groupby_date_sum_def group_sum_def Let_def comp_def sum_groupby_date_sum)
qed

text \<open>
  C14. The grouped view, completely: one group sum per distinct date, newest date
  first. With distinct dates there are no ties, so this holds for every tie order of
  \<^verbatim>\<open>sort_values\<close>.
\<close>

theorem get_grouped_df_eq:
  "get_grouped_df tweets_df = map (group_sum tweets_df) (rev (sort (remdups (map row_date tweets_df))))"
proof -
  have "\<forall>g\<in>set (get_grouped_df tweets_df). g = group_sum tweets_df (g_date g)"
    by (auto simp: set_get_grouped_df)
  then have "get_grouped_df tweets_df = map (group_sum tweets_df) (map g_date (get_grouped_df tweets_df))"
    by (simp add: map_idI)
  then show ?thesis by (simp add: grouped_dates_rev_sort)
qed

text \<open>
  C21. Size of the grouped view: one row per distinct calendar date, hence never more
  rows than \<^verbatim>\<open>tweets_df\<close>.
\<close>

theorem get_grouped_df_length:
  "length (get_grouped_df rows) = card (row_date ` set rows) \<and> length (get_grouped_df rows) \<le> length rows"
proof -
  have "length (get_grouped_df rows) = length (remdups (map row_date rows))"
    using arg_cong [OF grouped_dates_rev_sort [of rows], of length] by simp
  then show ?thesis
    by (metis length_map length_remdups_card_conv length_remdups_leq set_map)
qed
end
