(* ===== verification/Handler.thy ===== *)
theory Handler
  imports Fetcher Aggregate
begin

text \<open>
  The request handler and its collaborators (\<^verbatim>\<open>src/app.py\<close>): the start-up code that
  reads the four credentials from \<^verbatim>\<open>CONFIG\<close> and builds the API client (lines 8--21),
  \<^verbatim>\<open>get_profile\<close> (lines 78--87) and the Flask view \<^verbatim>\<open>index\<close> (lines 38--55),
  which on a POST runs \<^verbatim>\<open>get_tweets_df\<close>, \<^verbatim>\<open>get_grouped_df\<close>,
  \<^verbatim>\<open>get_sorted_df\<close> and \<^verbatim>\<open>get_profile\<close> in this order and renders the four results.
  An exception anywhere in that chain leaves the view, and Flask answers with its
  generic error page; the model returns the exception.
\<close>

section \<open>Start-up: credentials and the API client\<close>

record credentials =
  consumer_key :: string
  consumer_secret :: string
  access_token :: string
  access_secret :: string

text \<open>
  The Twitter service as the authenticated client sees it: the timeline endpoint and
  \<^verbatim>\<open>api.get_user\<close>.
\<close>

record user =
  u_id :: int
  u_profile_image_url :: string
  u_description :: string

record api =
  timeline :: timeline_api
  get_user :: "string \<Rightarrow> py_error + user"

text \<open>
  Lines 10--14: the four reads of \<^verbatim>\<open>CONFIG\<close>, in this order; a missing key raises
  \<^verbatim>\<open>KeyError\<close> when the module is imported, before any request is served.
\<close>

definition load_config :: "(string \<Rightarrow> string option) \<Rightarrow> py_error + credentials" where
  "load_config config =
     py_bind (py_getitem config ''CONSUMER_KEY'') (\<lambda>ck.
     py_bind (py_getitem config ''CONSUMER_SECRET'') (\<lambda>cs.
     py_bind (py_getitem config ''ACCESS_TOKEN'') (\<lambda>at.
     py_bind (py_getitem config ''ACCESS_SECRET'') (\<lambda>asec.
       Inr \<lparr>consumer_key = ck, consumer_secret = cs, access_token = at, access_secret = asec\<rparr>))))"

text \<open>
  Lines 10--21: the credentials, then \<^verbatim>\<open>OAuthHandler\<close>, \<^verbatim>\<open>set_access_token\<close> and
  \<^verbatim>\<open>tweepy.API(auth)\<close>: the client the service grants to these credentials.
\<close>

definition startup :: "(string \<Rightarrow> string option) \<Rightarrow> (credentials \<Rightarrow> api) \<Rightarrow> py_error + api" where
  "startup config service = py_bind (load_config config) (\<lambda>c. Inr (service c))"

section \<open>get_profile\<close>

record profile =
  p_id :: int
  p_user_id :: string
  p_image :: string
  p_description :: string

text \<open>Lines 78--87: \<^verbatim>\<open>api.get_user\<close>, then the dict of four entries.\<close>

definition get_profile :: "api \<Rightarrow> string \<Rightarrow> py_error + profile" where
  "get_profile a user_id =
     py_bind (get_user a user_id) (\<lambda>u.
       Inr \<lparr>p_id = u_id u, p_user_id = user_id, p_image = u_profile_image_url u,
            p_description = u_description u\<rparr>)"

section \<open>The view index\<close>

datatype http_method = GET | POST

record request =
  req_method :: http_method
  form :: "string \<Rightarrow> string option"

text \<open>
  What \<^verbatim>\<open>render_template('index.html', ...)\<close> receives: nothing (the empty form), or
  the profile and the three tables.
\<close>

datatype page =
    Index_Empty
  | Index_Data profile "tweet_row list" "group_row list" "tweet_row list"

text \<open>
  Lines 38--55. The result is the page or the exception that left the view, with the
  lines printed on the way; \<open>None\<close> when the timeline iteration never ends. The
  keyword arguments of \<^verbatim>\<open>render_template\<close> are evaluated in order, so
  \<^verbatim>\<open>get_profile\<close> runs after the three tables are built.
\<close>

definition index :: "api \<Rightarrow> request \<Rightarrow> ((py_error + page) \<times> py_error list) option" where
  "index a req =
     (if req_method req = POST then
        (case py_getitem (form req) ''user_id'' of
           Inl e \<Rightarrow> Some (Inl e, [])
         | Inr user_id \<Rightarrow>
             Option.bind (get_tweets_df (timeline a) user_id) (\<lambda>(res, out).
               Some (py_bind res (\<lambda>tweets_df.
                       let grouped_df = get_grouped_df tweets_df;
                           sorted_df = get_sorted_df tweets_df
                       in py_bind (get_profile a user_id) (\<lambda>profile.
                            Inr (Index_Data profile tweets_df grouped_df sorted_df))), out)))
      else Some (Inr Index_Empty, []))"

lemmas handler_exec [exec_simps] = index_def get_profile_def load_config_def startup_def

section \<open>The view on each path\<close>

lemma index_post:
  assumes "req_method req = POST" and "form req ''user_id'' = Some user_id"
  shows "index a req =
    map_option (\<lambda>(res, out).
        (py_bind res (\<lambda>rows. py_bind (get_profile a user_id) (\<lambda>p.
           Inr (Index_Data p rows (get_grouped_df rows) (get_sorted_df rows)))), out))
      (get_tweets_df (timeline a) user_id)"
  using assms
  by (cases "get_tweets_df (timeline a) user_id") (auto simp: index_def py_getitem_def Let_def)

lemma get_profile_Inr:
  "get_profile a user_id = Inr p \<longleftrightarrow>
     (\<exists>u. get_user a user_id = Inr u \<and>
        p = \<lparr>p_id = u_id u, p_user_id = user_id, p_image = u_profile_image_url u,
             p_description = u_description u\<rparr>)"
  by (auto simp: get_profile_def)

text \<open>C15. A GET renders the empty page, calls no API and prints nothing.\<close>

theorem index_get: "index a \<lparr>req_method = GET, form = f\<rparr> = Some (Inr Index_Empty, [])"
  by (simp add: index_def)

text \<open>
  C16. A POST without the form field \<^verbatim>\<open>user_id\<close> raises \<^verbatim>\<open>KeyError\<close> before any
  API call.
\<close>

theorem index_missing_user_id:
  assumes "f ''user_id'' = None"
  shows "index a \<lparr>req_method = POST, form = f\<rparr> = Some (Inl (KeyError ''user_id''), [])"
  using assms by (simp add: index_def py_getitem_def)

theorem index_missing_user_id_witness:
  "(Map.empty :: string \<Rightarrow> string option) ''user_id'' = None \<and>
   index \<lparr>timeline = \<lambda>u k. Inr [], get_user = \<lambda>u. Inl (TweepError ''unused'')\<rparr>
     \<lparr>req_method = POST, form = Map.empty\<rparr> = Some (Inl (KeyError ''user_id''), [])"
proof -
  have h: "(Map.empty :: string \<Rightarrow> string option) ''user_id'' = None" by simp
  show ?thesis using h index_missing_user_id [OF h] by blast
qed

text \<open>
  C17. The timeline is read before the profile: when the fetch raises, the view
  raises the fetch's exception, whatever \<^verbatim>\<open>get_user\<close> would have answered, with the
  lines the fetch printed.
\<close>

theorem index_timeline_error_first:
  assumes "form req ''user_id'' = Some user_id" and "req_method req = POST"
    and "get_tweets_df (timeline a) user_id = Some (Inl e, out)"
  shows "index a req = Some (Inl e, out)"
  using assms by (simp add: index_post)

theorem index_timeline_error_first_witness:
  "[''user_id'' \<mapsto> ''ghost''] ''user_id'' = Some ''ghost'' \<and>
   req_method \<lparr>req_method = POST, form = [''user_id'' \<mapsto> ''ghost'']\<rparr> = POST \<and>
   get_tweets_df (\<lambda>u k. Inl (TweepError ''Not authorized'')) ''ghost''
     = Some (Inl (TweepError ''Not authorized''), []) \<and>
   index \<lparr>timeline = \<lambda>u k. Inl (TweepError ''Not authorized''),
          get_user = \<lambda>u. Inl (TweepError ''User not found'')\<rparr>
     \<lparr>req_method = POST, form = [''user_id'' \<mapsto> ''ghost'']\<rparr>
     = Some (Inl (TweepError ''Not authorized''), [])"
proof -
  have h1: "form \<lparr>req_method = POST, form = [''user_id'' \<mapsto> ''ghost'']\<rparr> ''user_id'' = Some ''ghost''"
    by simp
  have h2: "req_method \<lparr>req_method = POST, form = [''user_id'' \<mapsto> ''ghost'']\<rparr> = POST" by simp
  have h3: "get_tweets_df
      (timeline \<lparr>timeline = \<lambda>u k. Inl (TweepError ''Not authorized''),
                 get_user = \<lambda>u. Inl (TweepError ''User not found'')\<rparr>) ''ghost''
      = Some (Inl (TweepError ''Not authorized''), [])"
    by (simp add: exec_simps)
  show ?thesis using h1 h2 h3 index_timeline_error_first [OF h1 h2 h3] by simp
qed

text \<open>
  C18. No partial page: when the fetch succeeds but \<^verbatim>\<open>get_user\<close> fails, the view
  raises the API's error and the tables already computed are discarded.
\<close>

theorem index_profile_error:
  assumes "form req ''user_id'' = Some user_id" and "req_method req = POST"
    and "get_tweets_df (timeline a) user_id = Some (Inr rows, out)"
    and "get_user a user_id = Inl e"
  shows "index a req = Some (Inl e, out)"
  using assms by (simp add: index_post get_profile_def)

theorem index_profile_error_witness:
  "form \<lparr>req_method = POST, form = [''user_id'' \<mapsto> ''ghost'']\<rparr> ''user_id'' = Some ''ghost'' \<and>
   req_method \<lparr>req_method = POST, form = [''user_id'' \<mapsto> ''ghost'']\<rparr> = POST \<and>
   get_tweets_df (\<lambda>u k. Inr []) ''ghost'' = Some (Inr [], []) \<and>
   get_user \<lparr>timeline = \<lambda>u k. Inr [], get_user = \<lambda>u. Inl (TweepError ''User not found'')\<rparr> ''ghost''
     = Inl (TweepError ''User not found'') \<and>
   index \<lparr>timeline = \<lambda>u k. Inr [], get_user = \<lambda>u. Inl (TweepError ''User not found'')\<rparr>
     \<lparr>req_method = POST, form = [''user_id'' \<mapsto> ''ghost'']\<rparr>
     = Some (Inl (TweepError ''User not found''), [])"
proof -
  have h1: "form \<lparr>req_method = POST, form = [''user_id'' \<mapsto> ''ghost'']\<rparr> ''user_id'' = Some ''ghost''"
    by simp
  have h2: "req_method \<lparr>req_method = POST, form = [''user_id'' \<mapsto> ''ghost'']\<rparr> = POST" by simp
  have h3: "get_tweets_df
      (timeline \<lparr>timeline = \<lambda>u k. Inr [], get_user = \<lambda>u. Inl (TweepError ''User not found'')\<rparr>)
      ''ghost'' = Some (Inr [], [])"
    by (simp add: exec_simps)
  have h4: "get_user \<lparr>timeline = \<lambda>u k. Inr [], get_user = \<lambda>u. Inl (TweepError ''User not found'')\<rparr>
      ''ghost'' = Inl (TweepError ''User not found'')"
    by simp
  show ?thesis using h1 h2 h3 h4 index_profile_error [OF h1 h2 h3 h4] by simp
qed

text \<open>
  C19. Start-up succeeds exactly when all four credentials are configured, and then
  the client is the one the service grants to them; otherwise it raises
  \<^verbatim>\<open>KeyError\<close> naming the first missing key in the order of the code.
\<close>

theorem startup_result:
  "startup config service =
     (case find (\<lambda>k. config k = None)
            [''CONSUMER_KEY'', ''CONSUMER_SECRET'', ''ACCESS_TOKEN'', ''ACCESS_SECRET''] of
        Some k \<Rightarrow> Inl (KeyError k)
      | None \<Rightarrow> Inr (service \<lparr>consumer_key = the (config ''CONSUMER_KEY''),
                                consumer_secret = the (config ''CONSUMER_SECRET''),
                                access_token = the (config ''ACCESS_TOKEN''),
                                access_secret = the (config ''ACCESS_SECRET'')\<rparr>))"
  by (auto simp: startup_def load_config_def py_getitem_def split: option.splits)

end
