(* ===== verification/Server.thy ===== *)
theory Server
  imports Handler
begin

text \<open>
  The process that serves the view (spec \S4.5 and \S5): one worker handles the
  requests one after the other, each from start to finish. The only state shared
  between requests is the API client \<^verbatim>\<open>api\<close> (a module global, read-only after
  start-up, \<^verbatim>\<open>src/app.py\<close> line 21) and the process's standard output, to which
  \<^verbatim>\<open>print(e)\<close> writes. Flask answers an exception that leaves the view with an
  error response (\<^verbatim>\<open>request.form['user_id']\<close> raises a \<^verbatim>\<open>KeyError\<close> that Flask
  reports as 400 Bad Request, anything else is 500); that conversion is framework code
  and is modelled from the spec. A request whose timeline iteration never ends gets
  no response, so the step is a relation. This sequential server is the reference
  against which theory Threaded compares the threaded development server.
\<close>

section \<open>Server state and responses\<close>

record server =
  srv_api :: api
  srv_stdout :: "py_error list"

datatype response =
    Rendered page
  | Bad_Request
  | Internal_Server_Error

fun flask_response :: "py_error + page \<Rightarrow> response" where
  "flask_response (Inr p) = Rendered p"
| "flask_response (Inl (KeyError k)) = Bad_Request"
| "flask_response (Inl e) = Internal_Server_Error"

section \<open>Serving one request, and a sequence of requests\<close>

text \<open>One request: \<^verbatim>\<open>index\<close> runs against the shared client, its output is appended.\<close>

inductive serve :: "server \<Rightarrow> request \<Rightarrow> response \<Rightarrow> server \<Rightarrow> bool" where
  handle: "index (srv_api s) req = Some (res, out) \<Longrightarrow>
    serve s req (flask_response res) (s\<lparr>srv_stdout := srv_stdout s @ out\<rparr>)"

text \<open>A run: the requests in the order they were served, each with its response.\<close>

inductive serve_run :: "server \<Rightarrow> (request \<times> response) list \<Rightarrow> server \<Rightarrow> bool" where
  run_nil: "serve_run s [] s"
| run_cons: "serve s req resp s' \<Longrightarrow> serve_run s' trace s'' \<Longrightarrow>
    serve_run s ((req, resp) # trace) s''"

inductive_cases serve_elim: "serve s req resp s'"
inductive_simps serve_iff: "serve s req resp s'"
inductive_cases serve_run_cons_elim: "serve_run s ((req, resp) # trace) s''"

section \<open>One step\<close>

lemma serve_api: "serve s req resp s' \<Longrightarrow> srv_api s' = srv_api s"
  by (erule serve_elim) simp

lemma serve_response:
  "serve s req resp s' \<Longrightarrow> \<exists>res out. index (srv_api s) req = Some (res, out) \<and> resp = flask_response res"
  by (erule serve_elim) blast

lemma serve_stdout:
  "serve s req resp s' \<Longrightarrow>
     \<exists>res out. index (srv_api s) req = Some (res, out) \<and> srv_stdout s' = srv_stdout s @ out"
  by (erule serve_elim) auto

lemma serve_run_response:
  assumes "serve_run s trace s'" and "(req, resp) \<in> set trace"
  shows "\<exists>res out. index (srv_api s) req = Some (res, out) \<and> resp = flask_response res"
  using assms
proof (induction rule: serve_run.induct)
  case (run_nil s)
  then show ?case by simp
next
  case (run_cons s req' resp' s' trace s'')
  show ?case
  proof (cases "(req, resp) = (req', resp')")
    case True
    with run_cons.hyps(1) show ?thesis by (auto dest: serve_response)
  next
    case False
    with run_cons.prems have "(req, resp) \<in> set trace" by auto
    with run_cons.IH have "\<exists>res out. index (srv_api s') req = Some (res, out) \<and> resp = flask_response res"
      by blast
    with serve_api [OF run_cons.hyps(1)] show ?thesis by simp
  qed
qed

end
