(* ===== verification/Threaded.thy ===== *)
theory Threaded
  imports Server
begin

text \<open>
  The development server that \<^verbatim>\<open>app.run(host="localhost")\<close> starts
  (\<^verbatim>\<open>src/app.py\<close>, lines 100--101). Since Flask 1.0 it serves every request in a
  thread of its own (\<open>threaded=True\<close> is the default), so several runs of
  \<^verbatim>\<open>index\<close> may be in progress at once. They share the read-only API client and
  the process's standard output, to which each writes its \<^verbatim>\<open>print(e)\<close> lines.
  A thread runs \<^verbatim>\<open>index\<close> as the code does: a request that is not a POST with a
  \<^verbatim>\<open>user_id\<close> is answered at once; otherwise the thread fetches the pages of the
  cursor one at a time (line 59), prints the exceptions of each page's items (line 74)
  one line at a time, and when the cursor ends computes the view's result and
  responds. \<^verbatim>\<open>print(e)\<close> writes the message and the line feed separately, so
  writes of other threads may come in between. The log tags each write with the
  thread that made it; the process shows \<open>map snd\<close> of it.
\<close>

section \<open>Threads and steps\<close>

text \<open>
  What \<^verbatim>\<open>print(e)\<close> (line 74) does to standard output: it writes the message
  and then, in a second write, the line feed. Another thread may write in between.
\<close>

datatype out_event = Msg py_error | Newline

definition print_events :: "py_error list \<Rightarrow> out_event list" where
  "print_events es = concat (map (\<lambda>e. [Msg e, Newline]) es)"

text \<open>
  A thread in \<^verbatim>\<open>get_tweets_df\<close>: its request, the handle, the number of pages
  fetched and the lines of the last page still to print; or a thread whose response
  is ready.
\<close>

datatype thread =
    Running request string nat "out_event list"
  | Finished request response

record tserver =
  ts_api :: api
  ts_next :: nat
  ts_active :: "nat \<rightharpoonup> thread"
  ts_done :: "nat \<rightharpoonup> request \<times> response"
  ts_log :: "(nat \<times> out_event) list"

definition ts_init :: "api \<Rightarrow> tserver" where
  "ts_init a = \<lparr>ts_api = a, ts_next = 0, ts_active = Map.empty, ts_done = Map.empty, ts_log = []\<rparr>"

text \<open>What the process writes to standard output, and what one thread wrote there.\<close>

definition ts_stdout :: "tserver \<Rightarrow> out_event list" where
  "ts_stdout s = map snd (ts_log s)"

definition log_of :: "nat \<Rightarrow> (nat \<times> 'e) list \<Rightarrow> 'e list" where
  "log_of i log = map snd (filter (\<lambda>p. fst p = i) log)"

text \<open>The pages the cursor of line 59 reads for a handle.\<close>

abbreviation user_pages :: "api \<Rightarrow> string \<Rightarrow> nat \<Rightarrow> py_error + status list" where
  "user_pages a u \<equiv> user_timeline (timeline a) u True"

inductive tstep :: "tserver \<Rightarrow> tserver \<Rightarrow> bool" where
  accept_direct: "\<not> (req_method req = POST \<and> form req ''user_id'' \<noteq> None) \<Longrightarrow>
    index (ts_api s) req = Some (res, []) \<Longrightarrow>
    tstep s (s\<lparr>ts_next := Suc (ts_next s),
               ts_active := (ts_active s)(ts_next s \<mapsto> Finished req (flask_response res))\<rparr>)"
| accept_fetch: "req_method req = POST \<Longrightarrow> form req ''user_id'' = Some u \<Longrightarrow>
    tstep s (s\<lparr>ts_next := Suc (ts_next s),
               ts_active := (ts_active s)(ts_next s \<mapsto> Running req u 0 [])\<rparr>)"
| print: "ts_active s i = Some (Running req u k (e # es)) \<Longrightarrow>
    tstep s (s\<lparr>ts_active := (ts_active s)(i \<mapsto> Running req u k es), ts_log := ts_log s @ [(i, e)]\<rparr>)"
| fetch_page: "ts_active s i = Some (Running req u k []) \<Longrightarrow>
    \<not> page_ends (user_pages (ts_api s) u) k \<Longrightarrow>
    tstep s (s\<lparr>ts_active := (ts_active s)(i \<mapsto>
      Running req u (Suc k) (print_events (List.map_filter error_of (projr (user_pages (ts_api s) u k)))))\<rparr>)"
| finish: "ts_active s i = Some (Running req u k []) \<Longrightarrow>
    page_ends (user_pages (ts_api s) u) k \<Longrightarrow> index (ts_api s) req = Some (res, out) \<Longrightarrow>
    tstep s (s\<lparr>ts_active := (ts_active s)(i \<mapsto> Finished req (flask_response res))\<rparr>)"
| respond: "ts_active s i = Some (Finished req r) \<Longrightarrow>
    tstep s (s\<lparr>ts_active := (ts_active s)(i := None), ts_done := (ts_done s)(i \<mapsto> (req, r))\<rparr>)"

inductive_cases tstep_elim: "tstep s s'"

section \<open>Schedules\<close>

text \<open>
  The scheduler's choices as data: a schedule is the sequence of steps taken, and
  \<open>ts_exec\<close> runs one of them (\<open>None\<close> when the step is not enabled). \<open>Fetch\<close>
  asks the cursor of a thread for its next page, which either yields items or ends
  the iteration.
\<close>

datatype sched_event = Accept request | Print nat | Fetch nat | Respond nat

fun ts_exec :: "tserver \<Rightarrow> sched_event \<Rightarrow> tserver option" where
  "ts_exec s (Accept req) =
     (case (if req_method req = POST then form req ''user_id'' else None) of
        Some u \<Rightarrow> Some (s\<lparr>ts_next := Suc (ts_next s),
                           ts_active := (ts_active s)(ts_next s \<mapsto> Running req u 0 [])\<rparr>)
      | None \<Rightarrow> (case index (ts_api s) req of
          Some (res, []) \<Rightarrow> Some (s\<lparr>ts_next := Suc (ts_next s),
            ts_active := (ts_active s)(ts_next s \<mapsto> Finished req (flask_response res))\<rparr>)
        | _ \<Rightarrow> None))"
| "ts_exec s (Print i) =
     (case ts_active s i of
        Some (Running req u k (e # es)) \<Rightarrow>
          Some (s\<lparr>ts_active := (ts_active s)(i \<mapsto> Running req u k es), ts_log := ts_log s @ [(i, e)]\<rparr>)
      | _ \<Rightarrow> None)"
| "ts_exec s (Fetch i) =
     (case ts_active s i of
        Some (Running req u k []) \<Rightarrow>
          (if page_ends (user_pages (ts_api s) u) k then
             (case index (ts_api s) req of
                Some (res, out) \<Rightarrow> Some (s\<lparr>ts_active := (ts_active s)(i \<mapsto> Finished req (flask_response res))\<rparr>)
              | None \<Rightarrow> None)
           else Some (s\<lparr>ts_active := (ts_active s)(i \<mapsto>
             Running req u (Suc k) (print_events (List.map_filter error_of (projr (user_pages (ts_api s) u k)))))\<rparr>))
      | _ \<Rightarrow> None)"
| "ts_exec s (Respond i) =
     (case ts_active s i of
        Some (Finished req r) \<Rightarrow>
          Some (s\<lparr>ts_active := (ts_active s)(i := None), ts_done := (ts_done s)(i \<mapsto> (req, r))\<rparr>)
      | _ \<Rightarrow> None)"

fun ts_run :: "tserver \<Rightarrow> sched_event list \<Rightarrow> tserver option" where
  "ts_run s [] = Some s"
| "ts_run s (ev # evs) = Option.bind (ts_exec s ev) (\<lambda>s'. ts_run s' evs)"

text \<open>
  The invariant: a running thread is a POST with a handle whose first \<open>k\<close> pages
  did not end the cursor, and what it printed followed by what it has still to print
  are the exceptions of the items of those pages; a finished or answered thread holds
  the response \<^verbatim>\<open>index\<close> gives its request, and printed exactly that run's output.
\<close>

fun thread_ok :: "api \<Rightarrow> out_event list \<Rightarrow> thread \<Rightarrow> bool" where
  "thread_ok a printed (Running req u k pend) \<longleftrightarrow>
     req_method req = POST \<and> form req ''user_id'' = Some u \<and>
     (\<forall>j<k. \<not> page_ends (user_pages a u) j) \<and>
     printed @ pend = print_events (List.map_filter error_of (pages_items (user_pages a u) 0 k))"
| "thread_ok a printed (Finished req r) \<longleftrightarrow>
     (\<exists>res out. index a req = Some (res, out) \<and> printed = print_events out \<and> r = flask_response res)"

definition ts_ok :: "tserver \<Rightarrow> bool" where
  "ts_ok s \<longleftrightarrow>
     (\<forall>i t. ts_active s i = Some t \<longrightarrow> i < ts_next s \<and> ts_done s i = None \<and>
        thread_ok (ts_api s) (log_of i (ts_log s)) t) \<and>
     (\<forall>i req r. ts_done s i = Some (req, r) \<longrightarrow> i < ts_next s \<and>
        (\<exists>res out. index (ts_api s) req = Some (res, out) \<and> log_of i (ts_log s) = print_events out \<and>
           r = flask_response res)) \<and>
     (\<forall>p\<in>set (ts_log s). fst p < ts_next s)"

text \<open>
  Examples: two users whose timelines each serve one page of two malformed items, so
  that each request prints two lines; and a third user whose timeline serves a
  malformed item on every page, so that the cursor never ends.
\<close>

abbreviation demo_time :: datetime where
  "demo_time \<equiv> \<lparr>year = 2024, month = 1, day = 1, hour = 9, minute = 0, second = 0\<rparr>"

abbreviation demo_no_text :: status where
  "demo_no_text \<equiv> \<lparr>s_id = Some 1, s_created_at = Some demo_time, s_text = None,
     s_favorite_count = Some 0, s_retweet_count = Some 0, s_in_reply_to_status_id = None\<rparr>"

abbreviation demo_no_id :: status where
  "demo_no_id \<equiv> \<lparr>s_id = None, s_created_at = Some demo_time, s_text = Some ''hi'',
     s_favorite_count = Some 0, s_retweet_count = Some 0, s_in_reply_to_status_id = None\<rparr>"

abbreviation demo_user :: user where
  "demo_user \<equiv> \<lparr>u_id = 7, u_profile_image_url = ''http://img/u.png'', u_description = ''bio''\<rparr>"

abbreviation demo_api :: api where
  "demo_api \<equiv> \<lparr>timeline = \<lambda>u k. if k = (0::nat) then Inr (if u = ''alice''
       then [demo_no_text, demo_no_text] else [demo_no_id, demo_no_id])
     else Inr [],
     get_user = \<lambda>u. Inr demo_user\<rparr>"

abbreviation demo_req :: "string \<Rightarrow> request" where
  "demo_req u \<equiv> \<lparr>req_method = POST, form = [''user_id'' \<mapsto> u]\<rparr>"

abbreviation demo_final :: tserver where
  "demo_final \<equiv> the (ts_run (ts_init demo_api)
     [Accept (demo_req ''alice''), Accept (demo_req ''bob''), Fetch 0, Fetch 1,
      Print 0, Print 1, Print 0, Print 1, Print 0, Print 0, Print 1, Print 1,
      Fetch 0, Fetch 1, Respond 0, Respond 1])"

abbreviation hang_api :: api where
  "hang_api \<equiv> \<lparr>timeline = \<lambda>u k. if u = ''carol'' then Inr [demo_no_text]
     else if k = (0::nat) then Inr [demo_no_id] else Inr [],
     get_user = \<lambda>u. Inr demo_user\<rparr>"

abbreviation hang_started :: tserver where
  "hang_started \<equiv> the (ts_run (ts_init hang_api) [Accept (demo_req ''carol''), Fetch 0])"

abbreviation hang_final :: tserver where
  "hang_final \<equiv> the (ts_run (ts_init hang_api)
     [Accept (demo_req ''carol''), Accept (demo_req ''bob''), Fetch 0, Print 0, Print 0, Fetch 1,
      Print 1, Print 1, Fetch 1, Respond 1, Fetch 0, Print 0, Print 0])"

section \<open>The invariant\<close>

lemma log_of_snoc [simp]:
  "log_of i (log @ [(j, e)]) = (if j = i then log_of i log @ [e] else log_of i log)"
  by (simp add: log_of_def)

lemma log_of_append_other [simp]:
  "log_of i (log @ map (Pair j) es) = (if j = i then log_of i log @ es else log_of i log)"
  by (cases "j = i") (simp_all add: log_of_def filter_map comp_def)

lemma print_events_simps [simp]:
  "print_events [] = []"
  "print_events (e # es) = Msg e # Newline # print_events es"
  "print_events (es @ es') = print_events es @ print_events es'"
  by (simp_all add: print_events_def)

lemma log_of_fresh: "\<forall>p\<in>set log. fst p < n \<Longrightarrow> log_of n log = []"
  by (auto simp: log_of_def filter_empty_conv)

lemma pages_items_snoc:
  "k \<le> m \<Longrightarrow> pages_items page k (Suc m) = pages_items page k m @ projr (page m)"
  by (simp add: pages_items_def)

text \<open>When the cursor of a POST ends at page \<open>k\<close>, the view printed the exceptions of
  the items of the pages before it.\<close>

lemma index_output_at_end:
  assumes "req_method req = POST" and "form req ''user_id'' = Some u"
    and "page_ends (user_pages a u) k" and "\<forall>j<k. \<not> page_ends (user_pages a u) j"
  shows "\<exists>res. index a req = Some (res, List.map_filter error_of (pages_items (user_pages a u) 0 k))"
proof -
  have "cursor_items (user_pages a u) 0 = Some (pages_items (user_pages a u) 0 k, page_stop (user_pages a u) k)"
    using assms(3,4) by (intro cursor_items_result) auto
  with assms(1,2) show ?thesis
    by (simp add: index_post get_tweets_df_eq)
qed

lemma ts_ok_init: "ts_ok (ts_init a)"
  by (simp add: ts_ok_def ts_init_def)

lemma ts_ok_fresh:
  "ts_ok s \<Longrightarrow> ts_done s (ts_next s) = None \<and> ts_active s (ts_next s) = None \<and>
     log_of (ts_next s) (ts_log s) = []"
proof (intro conjI)
  assume ok: "ts_ok s"
  show "ts_done s (ts_next s) = None"
    using ok by (cases "ts_done s (ts_next s)") (force simp: ts_ok_def)+
  show "ts_active s (ts_next s) = None"
    using ok by (cases "ts_active s (ts_next s)") (force simp: ts_ok_def)+
  show "log_of (ts_next s) (ts_log s) = []"
    using ok by (simp add: ts_ok_def log_of_fresh)
qed

lemma ts_ok_active:
  "ts_ok s \<Longrightarrow> ts_active s i = Some t \<Longrightarrow>
     i < ts_next s \<and> ts_done s i = None \<and> thread_ok (ts_api s) (log_of i (ts_log s)) t"
  unfolding ts_ok_def by blast

lemma tstep_api: "tstep s s' \<Longrightarrow> ts_api s' = ts_api s"
  by (erule tstep_elim) simp_all

lemma tstep_ok:
  assumes "tstep s s'" and "ts_ok s"
  shows "ts_ok s'"
  using assms
proof (induction rule: tstep.induct)
  case (accept_direct req s res)
  with ts_ok_fresh [OF accept_direct.prems] show ?case
    by (auto simp: ts_ok_def less_Suc_eq log_of_fresh)
next
  case (accept_fetch req u s)
  with ts_ok_fresh [OF accept_fetch.prems] show ?case
    by (auto simp: ts_ok_def less_Suc_eq pages_items_def)
next
  case (print s i req u k e es)
  then show ?case by (fastforce simp: ts_ok_def)
next
  case (fetch_page s i req u k)
  then have "thread_ok (ts_api s) (log_of i (ts_log s)) (Running req u k [])"
    by (blast dest: ts_ok_active)
  with fetch_page.hyps(2) have "thread_ok (ts_api s) (log_of i (ts_log s))
      (Running req u (Suc k) (print_events (List.map_filter error_of (projr (user_pages (ts_api s) u k)))))"
    by (auto simp: pages_items_snoc map_filter_append less_Suc_eq)
  with fetch_page show ?case by (auto simp: ts_ok_def)
next
  case (finish s i req u k res out)
  then have "thread_ok (ts_api s) (log_of i (ts_log s)) (Running req u k [])"
    by (blast dest: ts_ok_active)
  with finish.hyps(2,3) index_output_at_end [of req u "ts_api s" k]
  have "thread_ok (ts_api s) (log_of i (ts_log s)) (Finished req (flask_response res))"
    by auto
  with finish show ?case by (auto simp: ts_ok_def)
next
  case (respond s i req r)
  then show ?case by (fastforce simp: ts_ok_def)
qed

lemma tsteps_ok_from:
  assumes "tstep\<^sup>*\<^sup>* s s'" and "ts_ok s"
  shows "ts_ok s' \<and> ts_api s' = ts_api s"
  using assms
proof (induction rule: rtranclp_induct)
  case base
  then show ?case by simp
next
  case (step s1 s2)
  then show ?case by (simp add: tstep_ok tstep_api)
qed

lemma tsteps_ok:
  assumes "tstep\<^sup>*\<^sup>* (ts_init a) s"
  shows "ts_ok s \<and> ts_api s = a"
  using tsteps_ok_from [OF assms ts_ok_init] by (simp add: ts_init_def)

section \<open>Schedules and runs\<close>

lemma ts_exec_tstep: "ts_exec s ev = Some s' \<Longrightarrow> tstep s s'"
  by (cases ev)
    (auto intro: tstep.intros split: option.splits list.splits prod.splits thread.splits if_splits)

lemma tstep_ts_exec: "tstep s s' \<Longrightarrow> \<exists>ev. ts_exec s ev = Some s'"
proof (induction rule: tstep.induct)
  case (accept_direct req s res)
  then show ?case by (intro exI [of _ "Accept req"]) (auto split: option.split)
next
  case (accept_fetch req u s)
  then show ?case by (intro exI [of _ "Accept req"]) simp
next
  case (print s i req u k e es)
  then show ?case by (intro exI [of _ "Print i"]) simp
next
  case (fetch_page s i req u k)
  then show ?case by (intro exI [of _ "Fetch i"]) simp
next
  case (finish s i req u k res out)
  then show ?case by (intro exI [of _ "Fetch i"]) simp
next
  case (respond s i req r)
  then show ?case by (intro exI [of _ "Respond i"]) simp
qed

lemma ts_run_tsteps: "ts_run s evs = Some s' \<Longrightarrow> tstep\<^sup>*\<^sup>* s s'"
proof (induction evs arbitrary: s)
  case Nil
  then show ?case by simp
next
  case (Cons ev evs)
  then obtain s1 where "ts_exec s ev = Some s1" and "ts_run s1 evs = Some s'"
    by (auto simp: bind_eq_Some_conv)
  with Cons.IH show ?case by (blast intro: converse_rtranclp_into_rtranclp ts_exec_tstep)
qed

lemma tstep_printI:
  "ts_active s i = Some (Running req u k (e # es)) \<Longrightarrow>
   s' = s\<lparr>ts_active := (ts_active s)(i \<mapsto> Running req u k es), ts_log := ts_log s @ [(i, e)]\<rparr> \<Longrightarrow>
   tstep s s'"
  by (simp add: tstep.print)

lemma tstep_fetch_pageI:
  "ts_active s i = Some (Running req u k []) \<Longrightarrow> \<not> page_ends (user_pages (ts_api s) u) k \<Longrightarrow>
   s' = s\<lparr>ts_active := (ts_active s)(i \<mapsto>
      Running req u (Suc k) (print_events (List.map_filter error_of (projr (user_pages (ts_api s) u k)))))\<rparr> \<Longrightarrow>
   tstep s s'"
  by (simp add: tstep.fetch_page)

text \<open>A running thread prints the lines it holds, one step each.\<close>

lemma print_all:
  "ts_active t i = Some (Running req u k es) \<Longrightarrow>
   tstep\<^sup>*\<^sup>* t (t\<lparr>ts_active := (ts_active t)(i \<mapsto> Running req u k []),
                     ts_log := ts_log t @ map (Pair i) es\<rparr>)"
proof (induction es arbitrary: t)
  case Nil
  then show ?case by (simp add: fun_upd_idem)
next
  case (Cons e es)
  let ?t1 = "t\<lparr>ts_active := (ts_active t)(i \<mapsto> Running req u k es), ts_log := ts_log t @ [(i, e)]\<rparr>"
  have step: "tstep t ?t1" using Cons.prems by (rule tstep_printI) simp
  have "tstep\<^sup>*\<^sup>* ?t1 (t\<lparr>ts_active := (ts_active t)(i \<mapsto> Running req u k []),
                     ts_log := ts_log t @ map (Pair i) (e # es)\<rparr>)"
  proof -
    have "ts_active ?t1 i = Some (Running req u k es)" by simp
    then have "tstep\<^sup>*\<^sup>* ?t1 (?t1\<lparr>ts_active := (ts_active ?t1)(i \<mapsto> Running req u k []),
                     ts_log := ts_log ?t1 @ map (Pair i) es\<rparr>)"
      by (rule Cons.IH)
    moreover have "?t1\<lparr>ts_active := (ts_active ?t1)(i \<mapsto> Running req u k []),
                     ts_log := ts_log ?t1 @ map (Pair i) es\<rparr> =
      t\<lparr>ts_active := (ts_active t)(i \<mapsto> Running req u k []),
                     ts_log := ts_log t @ map (Pair i) (e # es)\<rparr>"
      by simp
    ultimately show ?thesis by simp
  qed
  with step show ?case by (rule converse_rtranclp_into_rtranclp)
qed

text \<open>A running thread goes through the pages \<open>k\<close> to \<open>m - 1\<close> of its cursor, none of
  which ends it, printing the exceptions of their items.\<close>

text \<open>A running thread goes through the pages \<open>k\<close> to \<open>m - 1\<close> of its cursor, none of
  which ends it, printing the exceptions of their items.\<close>

lemma fetch_pages:
  assumes "ts_active t i = Some (Running req u k [])" and "k \<le> m"
    and "\<forall>j. k \<le> j \<and> j < m \<longrightarrow> \<not> page_ends (user_pages (ts_api t) u) j"
  shows "tstep\<^sup>*\<^sup>* t (t\<lparr>ts_active := (ts_active t)(i \<mapsto> Running req u m []),
           ts_log := ts_log t @ map (Pair i)
             (print_events (List.map_filter error_of (pages_items (user_pages (ts_api t) u) k m)))\<rparr>)"
  using assms(2,3)
proof (induction m)
  case 0
  with assms(1) show ?case by (simp add: pages_items_def fun_upd_idem)
next
  case (Suc m)
  show ?case
  proof (cases "k = Suc m")
    case True
    with assms(1) show ?thesis by (simp add: pages_items_def fun_upd_idem)
  next
    case False
    with Suc.prems have km: "k \<le> m" and notend: "\<not> page_ends (user_pages (ts_api t) u) m" by auto
    let ?es = "print_events (List.map_filter error_of (projr (user_pages (ts_api t) u m)))"
    let ?t1 = "t\<lparr>ts_active := (ts_active t)(i \<mapsto> Running req u m []),
           ts_log := ts_log t @ map (Pair i)
             (print_events (List.map_filter error_of (pages_items (user_pages (ts_api t) u) k m)))\<rparr>"
    let ?t2 = "?t1\<lparr>ts_active := (ts_active ?t1)(i \<mapsto> Running req u (Suc m) ?es)\<rparr>"
    have run1: "tstep\<^sup>*\<^sup>* t ?t1" using km Suc.prems by (intro Suc.IH) auto
    have step: "tstep ?t1 ?t2"
      using notend by (intro tstep_fetch_pageI [of _ i req u m]) simp_all
    have "ts_active ?t2 i = Some (Running req u (Suc m) ?es)" by simp
    then have run2: "tstep\<^sup>*\<^sup>* ?t2 (?t2\<lparr>ts_active := (ts_active ?t2)(i \<mapsto> Running req u (Suc m) []),
                     ts_log := ts_log ?t2 @ map (Pair i) ?es\<rparr>)"
      by (rule print_all)
    have eq: "?t2\<lparr>ts_active := (ts_active ?t2)(i \<mapsto> Running req u (Suc m) []),
                     ts_log := ts_log ?t2 @ map (Pair i) ?es\<rparr> =
      t\<lparr>ts_active := (ts_active t)(i \<mapsto> Running req u (Suc m) []),
           ts_log := ts_log t @ map (Pair i)
             (print_events (List.map_filter error_of (pages_items (user_pages (ts_api t) u) k (Suc m))))\<rparr>"
      using km by (simp add: pages_items_snoc map_filter_append)
    have "tstep\<^sup>*\<^sup>* t ?t2" using run1 step by (rule rtranclp.rtrancl_into_rtrancl)
    then have "tstep\<^sup>*\<^sup>* t (?t2\<lparr>ts_active := (ts_active ?t2)(i \<mapsto> Running req u (Suc m) []),
                     ts_log := ts_log ?t2 @ map (Pair i) ?es\<rparr>)"
      using run2 by (rule rtranclp_trans)
    then show ?thesis unfolding eq .
  qed
qed

text \<open>Serving one request alone, from its acceptance to its response, with no other
  thread taking a step in between: the run of the sequential server.\<close>

lemma index_direct_output:
  "\<not> (req_method req = POST \<and> form req ''user_id'' \<noteq> None) \<Longrightarrow> index a req = Some (res, out) \<Longrightarrow> out = []"
  by (cases "req_method req") (auto simp: index_def py_getitem_def)

lemma serve_one:
  assumes idx: "index (ts_api t) req = Some (res, out)" and fresh: "ts_active t (ts_next t) = None"
  shows "tstep\<^sup>*\<^sup>* t (t\<lparr>ts_next := Suc (ts_next t),
           ts_done := (ts_done t)(ts_next t \<mapsto> (req, flask_response res)),
           ts_log := ts_log t @ map (Pair (ts_next t)) (print_events out)\<rparr>)"
proof (cases "req_method req = POST \<and> form req ''user_id'' \<noteq> None")
  case False
  with idx have out: "out = []" by (blast intro: index_direct_output)
  let ?n = "ts_next t" and ?r = "flask_response res"
  let ?t1 = "t\<lparr>ts_next := Suc ?n, ts_active := (ts_active t)(?n \<mapsto> Finished req ?r)\<rparr>"
  have s1: "tstep t ?t1" using False idx out by (intro tstep.accept_direct) simp_all
  have s2: "tstep ?t1 (?t1\<lparr>ts_active := (ts_active ?t1)(?n := None),
      ts_done := (ts_done ?t1)(?n \<mapsto> (req, ?r))\<rparr>)"
    by (rule tstep.respond) simp
  have eq: "?t1\<lparr>ts_active := (ts_active ?t1)(?n := None), ts_done := (ts_done ?t1)(?n \<mapsto> (req, ?r))\<rparr> =
    t\<lparr>ts_next := Suc ?n, ts_done := (ts_done t)(?n \<mapsto> (req, ?r)), ts_log := ts_log t @ map (Pair ?n) (print_events out)\<rparr>"
    using fresh out by (simp add: fun_upd_idem)
  from s1 s2 show ?thesis unfolding eq by (rule converse_rtranclp_into_rtranclp [OF _ r_into_rtranclp])
next
  case True
  then obtain u where post: "req_method req = POST" and u: "form req ''user_id'' = Some u" by auto
  let ?n = "ts_next t" and ?r = "flask_response res" and ?p = "user_pages (ts_api t) u"
  obtain fres where "get_tweets_df (timeline (ts_api t)) u = Some (fres, out)"
    using idx post u by (auto simp: index_post)
  then obtain m where ends: "page_ends ?p m" and before: "\<forall>i<m. \<not> page_ends ?p i"
    and out: "out = List.map_filter error_of (pages_items ?p 0 m)"
    by (rule get_tweets_df_Some) blast
  let ?t1 = "t\<lparr>ts_next := Suc ?n, ts_active := (ts_active t)(?n \<mapsto> Running req u 0 [])\<rparr>"
  have s1: "tstep t ?t1" using post u by (rule tstep.accept_fetch)
  let ?t2 = "?t1\<lparr>ts_active := (ts_active ?t1)(?n \<mapsto> Running req u m []),
           ts_log := ts_log ?t1 @ map (Pair ?n) (print_events (List.map_filter error_of (pages_items (user_pages (ts_api ?t1) u) 0 m)))\<rparr>"
  have s2: "tstep\<^sup>*\<^sup>* ?t1 ?t2" using before by (intro fetch_pages) simp_all
  let ?t3 = "?t2\<lparr>ts_active := (ts_active ?t2)(?n \<mapsto> Finished req ?r)\<rparr>"
  have s3: "tstep ?t2 ?t3" using ends idx by (intro tstep.finish [of _ _ req u m res out]) simp_all
  let ?t4 = "?t3\<lparr>ts_active := (ts_active ?t3)(?n := None), ts_done := (ts_done ?t3)(?n \<mapsto> (req, ?r))\<rparr>"
  have s4: "tstep ?t3 ?t4" by (rule tstep.respond) simp
  have eq: "?t4 = t\<lparr>ts_next := Suc ?n, ts_done := (ts_done t)(?n \<mapsto> (req, ?r)),
      ts_log := ts_log t @ map (Pair ?n) (print_events out)\<rparr>"
    using fresh out by (simp add: fun_upd_idem)
  have "tstep\<^sup>*\<^sup>* t ?t2" using s1 s2 by (rule converse_rtranclp_into_rtranclp)
  then have "tstep\<^sup>*\<^sup>* t ?t4" using s3 s4 by (blast intro: rtranclp.rtrancl_into_rtrancl)
  then show ?thesis unfolding eq .
qed

lemma dom_map_of_enumerate: "dom (map_of (List.enumerate n xs)) = {n..<n + length xs}"
  by (simp add: enumerate_eq_zip dom_map_of_zip)

lemma serve_run_tsteps:
  assumes "serve_run s trace s'" and "ts_api t = srv_api s" and "ts_active t = Map.empty"
  shows "\<exists>t'. tstep\<^sup>*\<^sup>* t t' \<and> ts_active t' = Map.empty \<and>
    ts_done t' = ts_done t ++ map_of (List.enumerate (ts_next t) trace) \<and>
    (\<exists>outs. srv_stdout s' = srv_stdout s @ outs \<and> ts_stdout t' = ts_stdout t @ print_events outs)"
  using assms
proof (induction arbitrary: t rule: serve_run.induct)
  case (run_nil s)
  then show ?case by auto
next
  case (run_cons s req resp s1 trace s2)
  from run_cons.hyps(1) obtain res out where idx: "index (srv_api s) req = Some (res, out)"
    and resp: "resp = flask_response res" and s1: "s1 = s\<lparr>srv_stdout := srv_stdout s @ out\<rparr>"
    by (auto elim: serve_elim)
  let ?n = "ts_next t"
  let ?t1 = "t\<lparr>ts_next := Suc ?n, ts_done := (ts_done t)(?n \<mapsto> (req, resp)),
           ts_log := ts_log t @ map (Pair ?n) (print_events out)\<rparr>"
  have r1: "tstep\<^sup>*\<^sup>* t ?t1"
    using serve_one [of t req res out] idx resp run_cons.prems by simp
  have "\<exists>t'. tstep\<^sup>*\<^sup>* ?t1 t' \<and> ts_active t' = Map.empty \<and>
    ts_done t' = ts_done ?t1 ++ map_of (List.enumerate (ts_next ?t1) trace) \<and>
    (\<exists>outs. srv_stdout s2 = srv_stdout s1 @ outs \<and> ts_stdout t' = ts_stdout ?t1 @ print_events outs)"
    using run_cons.prems s1 by (intro run_cons.IH) simp_all
  then obtain t' outs where r2: "tstep\<^sup>*\<^sup>* ?t1 t'" and act: "ts_active t' = Map.empty"
    and dn: "ts_done t' = ts_done ?t1 ++ map_of (List.enumerate (Suc ?n) trace)"
    and o1: "srv_stdout s2 = srv_stdout s1 @ outs" and o2: "ts_stdout t' = ts_stdout ?t1 @ print_events outs"
    by auto
  have "?n \<notin> dom (map_of (List.enumerate (Suc ?n) trace))"
    by (simp add: dom_map_of_enumerate)
  then have "ts_done t' = ts_done t ++ map_of (List.enumerate ?n ((req, resp) # trace))"
    by (simp add: dn map_add_upd_left)
  moreover have "srv_stdout s2 = srv_stdout s @ (out @ outs) \<and>
      ts_stdout t' = ts_stdout t @ print_events (out @ outs)"
    using o1 o2 s1 by (simp add: ts_stdout_def comp_def)
  ultimately show ?case using r1 r2 act by (blast intro: rtranclp_trans)
qed

section \<open>Requests whose fetch never ends\<close>

lemma index_never_ends:
  assumes "req_method req = POST" and "form req ''user_id'' = Some u"
    and "\<forall>n. \<not> page_ends (user_pages a u) n"
  shows "index a req = None"
proof -
  have "cursor_items (user_pages a u) 0 = None"
    using assms(3) cursor_items_returns_ends [of "user_pages a u" 0] by (cases "cursor_items (user_pages a u) 0") auto
  with assms(1,2) show ?thesis by (simp add: index_post get_tweets_df_eq)
qed

text \<open>A thread whose cursor never ends stays in \<^verbatim>\<open>get_tweets_df\<close>, whatever the others do.\<close>

lemma tstep_running_stays:
  assumes "tstep s s'" and "ts_ok s" and "ts_active s i = Some (Running req u k pend)"
    and "\<forall>n. \<not> page_ends (user_pages (ts_api s) u) n"
  shows "\<exists>k' pend'. ts_active s' i = Some (Running req u k' pend')"
proof -
  have "i \<noteq> ts_next s" using ts_ok_fresh [OF assms(2)] assms(3) by auto
  with assms(1,3,4) show ?thesis by (cases rule: tstep.cases) auto
qed

lemma tsteps_running_stays:
  assumes "tstep\<^sup>*\<^sup>* s s'" and "ts_ok s" and "ts_active s i = Some (Running req u k pend)"
    and "\<forall>n. \<not> page_ends (user_pages (ts_api s) u) n"
  shows "\<exists>k' pend'. ts_active s' i = Some (Running req u k' pend')"
  using assms(1)
proof (induction rule: rtranclp_induct)
  case base
  with assms(3) show ?case by blast
next
  case (step s1 s2)
  then obtain k' pend' where "ts_active s1 i = Some (Running req u k' pend')" by blast
  moreover have "ts_ok s1 \<and> ts_api s1 = ts_api s" using tsteps_ok_from [OF step.hyps(1) assms(2)] .
  ultimately show ?case using step.hyps(2) assms(4) by (auto intro: tstep_running_stays)
qed

section \<open>What the threaded server does\<close>

text \<open>
  Threads do not disturb one another: in every reachable state of the threaded
  server, a request that was answered got the response the sequential server gives
  it, and the lines its thread printed appear in the shared output in the order of
  that run of \<^verbatim>\<open>index\<close>, each message followed by its line feed, writes of other
  threads aside.
\<close>

theorem threaded_response_as_sequential:
  assumes "tstep\<^sup>*\<^sup>* (ts_init a) s" and "ts_done s i = Some (req, r)"
  shows "\<exists>res out. index a req = Some (res, out) \<and> log_of i (ts_log s) = print_events out \<and>
    r = flask_response res"
  using tsteps_ok [OF assms(1)] assms(2) by (auto simp: ts_ok_def)

lemma demo_run:
  "ts_run (ts_init demo_api)
     [Accept (demo_req ''alice''), Accept (demo_req ''bob''), Fetch 0, Fetch 1,
      Print 0, Print 1, Print 0, Print 1, Print 0, Print 0, Print 1, Print 1,
      Fetch 0, Fetch 1, Respond 0, Respond 1] = Some demo_final"
  by (simp add: ts_init_def exec_simps is_reply_def page_ends_def error_of_def)

lemmas demo_reachable = ts_run_tsteps [OF demo_run]

text \<open>
  The threaded server does not serve requests start to finish: in a reachable
  state two requests, each printing two lines, have their writes interleaved on the
  shared standard output, down to two messages on one line, which then differs from
  the output of serving them one after the other in either order.
\<close>

theorem threaded_output_interleaves:
  "tstep\<^sup>*\<^sup>* (ts_init demo_api) demo_final \<and>
   snd (the (index demo_api (demo_req ''alice''))) = [AttributeError ''text'', AttributeError ''text''] \<and>
   snd (the (index demo_api (demo_req ''bob''))) = [AttributeError ''id'', AttributeError ''id''] \<and>
   ts_stdout demo_final =
     [Msg (AttributeError ''text''), Msg (AttributeError ''id''), Newline, Newline,
      Msg (AttributeError ''text''), Newline, Msg (AttributeError ''id''), Newline] \<and>
   ts_stdout demo_final \<noteq>
     print_events (snd (the (index demo_api (demo_req ''alice''))) @ snd (the (index demo_api (demo_req ''bob'')))) \<and>
   ts_stdout demo_final \<noteq>
     print_events (snd (the (index demo_api (demo_req ''bob''))) @ snd (the (index demo_api (demo_req ''alice''))))"
proof -
  have a: "snd (the (index demo_api (demo_req ''alice''))) = [AttributeError ''text'', AttributeError ''text'']"
    by (simp add: exec_simps is_reply_def)
  have b: "snd (the (index demo_api (demo_req ''bob''))) = [AttributeError ''id'', AttributeError ''id'']"
    by (simp add: exec_simps is_reply_def)
  have o: "ts_stdout demo_final =
     [Msg (AttributeError ''text''), Msg (AttributeError ''id''), Newline, Newline,
      Msg (AttributeError ''text''), Newline, Msg (AttributeError ''id''), Newline]"
    by (simp add: ts_stdout_def ts_init_def exec_simps is_reply_def page_ends_def error_of_def)
  show ?thesis using demo_reachable a b o by simp
qed

text \<open>
  Refinement of the sequential server by the threaded one: every run of the
  sequential server (requests served one after the other, \<open>serve_run\<close>) is a run of
  the threaded server in which each thread runs alone from acceptance to response;
  it answers the requests with the same responses, numbered in arrival order, and
  writes the same lines, each message followed at once by its line feed.
\<close>

theorem threaded_simulates_sequential:
  assumes "serve_run s trace s'"
  shows "\<exists>t. tstep\<^sup>*\<^sup>* (ts_init (srv_api s)) t \<and> ts_active t = Map.empty \<and>
    ts_done t = map_of (List.enumerate 0 trace) \<and>
    (\<exists>outs. srv_stdout s' = srv_stdout s @ outs \<and> ts_stdout t = print_events outs)"
  using serve_run_tsteps [OF assms, of "ts_init (srv_api s)"]
  by (auto simp: ts_init_def ts_stdout_def)

text \<open>
  A request whose timeline iteration never ends occupies its thread for ever:
  from any reachable state in which its thread runs, whatever the other threads do,
  the thread is still inside \<^verbatim>\<open>get_tweets_df\<close> and has not been answered.
\<close>

theorem threaded_hung_request_never_answered:
  assumes "tstep\<^sup>*\<^sup>* (ts_init a) s" and "ts_active s i = Some (Running req u k pend)"
    and "\<forall>n. \<not> page_ends (user_pages a u) n" and "tstep\<^sup>*\<^sup>* s s'"
  shows "(\<exists>k' pend'. ts_active s' i = Some (Running req u k' pend')) \<and> ts_done s' i = None"
proof -
  have ok: "ts_ok s \<and> ts_api s = a" by (rule tsteps_ok [OF assms(1)])
  then obtain k' pend' where run: "ts_active s' i = Some (Running req u k' pend')"
    using tsteps_running_stays [OF assms(4) _ assms(2)] assms(3) by blast
  have "ts_ok s'" using tsteps_ok_from [OF assms(4)] ok by blast
  with run have "ts_done s' i = None" by (blast dest: ts_ok_active)
  with run show ?thesis by blast
qed

text \<open>
  Under the threaded server a request that never ends does not block the others:
  in a reachable state the request of a user whose timeline never ends (which the
  sequential server never answers) is still being fetched while a later request
  has been answered.
\<close>

theorem threaded_hung_request_does_not_block:
  "tstep\<^sup>*\<^sup>* (ts_init hang_api) hang_final \<and>
   index hang_api (demo_req ''carol'') = None \<and>
   ts_active hang_final 0 = Some (Running (demo_req ''carol'') ''carol'' 2 []) \<and>
   ts_done hang_final 1 = Some (demo_req ''bob'', Rendered (Index_Data
     \<lparr>p_id = 7, p_user_id = ''bob'', p_image = ''http://img/u.png'', p_description = ''bio''\<rparr> [] [] [])) \<and>
   ts_stdout hang_final = print_events [AttributeError ''text'', AttributeError ''id'', AttributeError ''text'']"
proof -
  have run: "ts_run (ts_init hang_api)
     [Accept (demo_req ''carol''), Accept (demo_req ''bob''), Fetch 0, Print 0, Print 0, Fetch 1,
      Print 1, Print 1, Fetch 1, Respond 1, Fetch 0, Print 0, Print 0] = Some hang_final"
    by (simp add: ts_init_def exec_simps is_reply_def page_ends_def error_of_def)
  have idx: "index hang_api (demo_req ''carol'') = None"
    by (rule index_never_ends [where u = "''carol''"]) (simp_all add: page_ends_def user_timeline_def is_reply_def)
  have st: "ts_active hang_final 0 = Some (Running (demo_req ''carol'') ''carol'' 2 []) \<and>
   ts_done hang_final 1 = Some (demo_req ''bob'', Rendered (Index_Data
     \<lparr>p_id = 7, p_user_id = ''bob'', p_image = ''http://img/u.png'', p_description = ''bio''\<rparr> [] [] [])) \<and>
   ts_stdout hang_final = print_events [AttributeError ''text'', AttributeError ''id'', AttributeError ''text'']"
    by (simp add: ts_stdout_def ts_init_def exec_simps is_reply_def page_ends_def error_of_def)
  show ?thesis using ts_run_tsteps [OF run] idx st by blast
qed

end
