(* ===== verification/Tweepy.thy ===== *)
theory Tweepy
  imports Fetcher
begin

text \<open>
  How tweepy pages \<^verbatim>\<open>api.user_timeline\<close> (external; modelled from tweepy's
  \<^verbatim>\<open>Cursor\<close>, \<^verbatim>\<open>IdIterator\<close> and \<^verbatim>\<open>ResultSet.max_id\<close>). The cursor of line
  59 does not ask for page numbers: its first request has no \<^verbatim>\<open>max_id\<close>, and each
  later request asks for the statuses older than the smallest id of the previous
  result (\<^verbatim>\<open>max_id = min(ids) - 1\<close>); an empty result ends the iteration and a
  failed request raises. The theory defines that iteration and shows that it is the
  page model of theory Cursor for the pages the successive requests return, so the
  theorems about \<^verbatim>\<open>get_tweets_df\<close>, stated for any sequence of pages, hold for
  tweepy's cursor.
\<close>

section \<open>The endpoint and the iterator\<close>

text \<open>The raw service, asked for the statuses of a handle older than \<open>max_id\<close>
  (\<open>None\<close>: the newest ones).\<close>

type_synonym id_timeline_api = "string \<Rightarrow> int option \<Rightarrow> py_error + status list"

definition user_timeline_id ::
  "id_timeline_api \<Rightarrow> string \<Rightarrow> bool \<Rightarrow> int option \<Rightarrow> py_error + status list" where
  "user_timeline_id timeline screen_name exclude_replies max_id =
     (case timeline screen_name max_id of
        Inl e \<Rightarrow> Inl e
      | Inr ss \<Rightarrow> Inr (if exclude_replies then filter (\<lambda>s. \<not> is_reply s) ss else ss))"

text \<open>\<^verbatim>\<open>ResultSet.max_id\<close>: one less than the smallest id of the result, over the
  items that have an id; \<open>None\<close> when none has.\<close>

definition result_max_id :: "status list \<Rightarrow> int option" where
  "result_max_id ss = (case List.map_filter s_id ss of [] \<Rightarrow> None | i # is \<Rightarrow> Some (fold min is i - 1))"

text \<open>\<^verbatim>\<open>Cursor(api.user_timeline, screen_name=u, exclude_replies=True).items()\<close>
  from the request with \<open>max_id\<close> on: \<^verbatim>\<open>IdIterator.next\<close> raises
  \<^verbatim>\<open>StopIteration\<close> on an empty result, and \<^verbatim>\<open>ItemIterator\<close> yields the items of
  each result in order.\<close>

partial_function (option) id_cursor_items ::
  "id_timeline_api \<Rightarrow> string \<Rightarrow> int option \<Rightarrow> (status list \<times> py_error option) option" where
  "id_cursor_items timeline u max_id =
     (case user_timeline_id timeline u True max_id of
        Inl e \<Rightarrow> Some ([], Some e)
      | Inr ss \<Rightarrow>
          if ss = [] then Some ([], None)
          else Option.bind (id_cursor_items timeline u (result_max_id ss))
                 (\<lambda>(xs, stop). Some (ss @ xs, stop)))"

declare id_cursor_items.simps [code]

text \<open>The \<open>max_id\<close> of the \<open>k\<close>-th request of the iteration, and the raw pages those
  requests return, as the page-numbered endpoint of theory Cursor.\<close>

fun cursor_max_id :: "id_timeline_api \<Rightarrow> string \<Rightarrow> nat \<Rightarrow> int option" where
  "cursor_max_id timeline u 0 = None"
| "cursor_max_id timeline u (Suc k) =
     (case user_timeline_id timeline u True (cursor_max_id timeline u k) of
        Inr ss \<Rightarrow> result_max_id ss
      | Inl e \<Rightarrow> None)"

definition id_pages :: "id_timeline_api \<Rightarrow> timeline_api" where
  "id_pages timeline u k = timeline u (cursor_max_id timeline u k)"

section \<open>The iterator is the page model\<close>

lemma user_timeline_id_pages:
  "user_timeline (id_pages timeline) u True k = user_timeline_id timeline u True (cursor_max_id timeline u k)"
  by (simp add: user_timeline_def user_timeline_id_def id_pages_def)

lemma id_cursor_items_pages:
  assumes ret: "id_cursor_items timeline u max_id = Some r"
  shows "\<forall>k. max_id = cursor_max_id timeline u k \<longrightarrow>
    cursor_items (user_timeline (id_pages timeline) u True) k = Some r"
proof (rule id_cursor_items.raw_induct [where P = "\<lambda>timeline u max_id r. \<forall>k.
    max_id = cursor_max_id timeline u k \<longrightarrow> cursor_items (user_timeline (id_pages timeline) u True) k = Some r",
    OF _ ret], intro allI impI)
  fix f timeline u max_id r k
  assume IH: "\<And>timeline u max_id r. f timeline u max_id = Some r \<Longrightarrow> \<forall>k.
      max_id = cursor_max_id timeline u k \<longrightarrow> cursor_items (user_timeline (id_pages timeline) u True) k = Some r"
    and eq: "(case user_timeline_id timeline u True max_id of
        Inl e \<Rightarrow> Some ([], Some e)
      | Inr ss \<Rightarrow> if ss = [] then Some ([], None)
          else Option.bind (f timeline u (result_max_id ss)) (\<lambda>(xs, stop). Some (ss @ xs, stop))) = Some r"
    and k: "max_id = cursor_max_id timeline u k"
  have page: "user_timeline (id_pages timeline) u True k = user_timeline_id timeline u True max_id"
    using k by (simp add: user_timeline_id_pages)
  show "cursor_items (user_timeline (id_pages timeline) u True) k = Some r"
  proof (cases "user_timeline_id timeline u True max_id")
    case (Inl e)
    with eq page show ?thesis by (subst cursor_items.simps) simp
  next
    case (Inr ss)
    show ?thesis
    proof (cases "ss = []")
      case True
      with Inr eq page show ?thesis by (subst cursor_items.simps) simp
    next
      case False
      with Inr eq obtain xs stop where rec: "f timeline u (result_max_id ss) = Some (xs, stop)"
        and r: "r = (ss @ xs, stop)"
        by (auto simp: bind_eq_Some_conv)
      have "result_max_id ss = cursor_max_id timeline u (Suc k)"
        using Inr k by simp
      with IH [OF rec] have "cursor_items (user_timeline (id_pages timeline) u True) (Suc k) = Some (xs, stop)"
        by blast
      with Inr False r page show ?thesis by (subst cursor_items.simps) simp
    qed
  qed
qed

lemma pages_id_cursor_items:
  assumes ret: "cursor_items page k = Some r"
  shows "page = user_timeline (id_pages timeline) u True \<longrightarrow>
    id_cursor_items timeline u (cursor_max_id timeline u k) = Some r"
proof (rule cursor_items.raw_induct [where P = "\<lambda>page k r. page = user_timeline (id_pages timeline) u True \<longrightarrow>
    id_cursor_items timeline u (cursor_max_id timeline u k) = Some r", OF _ ret], intro impI)
  fix f page k r
  assume IH: "\<And>page k r. f page k = Some r \<Longrightarrow> page = user_timeline (id_pages timeline) u True \<longrightarrow>
      id_cursor_items timeline u (cursor_max_id timeline u k) = Some r"
    and eq: "(case page k of Inl e \<Rightarrow> Some ([], Some e)
      | Inr ss \<Rightarrow> if ss = [] then Some ([], None)
          else Option.bind (f page (Suc k)) (\<lambda>(xs, stop). Some (ss @ xs, stop))) = Some r"
    and pg: "page = user_timeline (id_pages timeline) u True"
  have page: "user_timeline_id timeline u True (cursor_max_id timeline u k) = page k"
    using pg by (simp add: user_timeline_id_pages)
  show "id_cursor_items timeline u (cursor_max_id timeline u k) = Some r"
  proof (cases "page k")
    case (Inl e)
    with eq page show ?thesis by (subst id_cursor_items.simps) simp
  next
    case (Inr ss)
    show ?thesis
    proof (cases "ss = []")
      case True
      with Inr eq page show ?thesis by (subst id_cursor_items.simps) simp
    next
      case False
      with Inr eq obtain xs stop where rec: "f page (Suc k) = Some (xs, stop)"
        and r: "r = (ss @ xs, stop)"
        by (auto simp: bind_eq_Some_conv)
      from IH [OF rec] pg have "id_cursor_items timeline u (cursor_max_id timeline u (Suc k)) = Some (xs, stop)"
        by blast
      moreover have "cursor_max_id timeline u (Suc k) = result_max_id ss"
        using Inr page by simp
      ultimately show ?thesis using Inr False r page by (subst id_cursor_items.simps) simp
    qed
  qed
qed

lemma id_cursor_items_eq:
  "id_cursor_items timeline u (cursor_max_id timeline u k) = cursor_items (user_timeline (id_pages timeline) u True) k"
proof (cases "cursor_items (user_timeline (id_pages timeline) u True) k")
  case None
  then show ?thesis
    using id_cursor_items_pages [of timeline u "cursor_max_id timeline u k"]
    by (cases "id_cursor_items timeline u (cursor_max_id timeline u k)") auto
next
  case (Some r)
  then show ?thesis using pages_id_cursor_items [OF Some] by simp
qed

text \<open>An example of the requests: the first result holds ids 5 and 4, so the next
  request asks for \<open>max_id = 3\<close>, whose result holds id 2, and the request with
  \<open>max_id = 1\<close> comes back empty.\<close>

lemma id_cursor_items_example:
  "id_cursor_items (\<lambda>u max_id. case max_id of
       None \<Rightarrow> Inr [\<lparr>s_id = Some 5, s_created_at = None, s_text = Some ''e'', s_favorite_count = None, s_retweet_count = None, s_in_reply_to_status_id = None\<rparr>,
                  \<lparr>s_id = Some 4, s_created_at = None, s_text = Some ''d'', s_favorite_count = None, s_retweet_count = None, s_in_reply_to_status_id = None\<rparr>]
     | Some m \<Rightarrow> if m = 3 then Inr [\<lparr>s_id = Some 2, s_created_at = None, s_text = Some ''b'', s_favorite_count = None, s_retweet_count = None, s_in_reply_to_status_id = None\<rparr>]
                 else Inr []) ''alice'' None =
   Some ([\<lparr>s_id = Some 5, s_created_at = None, s_text = Some ''e'', s_favorite_count = None, s_retweet_count = None, s_in_reply_to_status_id = None\<rparr>,
          \<lparr>s_id = Some 4, s_created_at = None, s_text = Some ''d'', s_favorite_count = None, s_retweet_count = None, s_in_reply_to_status_id = None\<rparr>,
          \<lparr>s_id = Some 2, s_created_at = None, s_text = Some ''b'', s_favorite_count = None, s_retweet_count = None, s_in_reply_to_status_id = None\<rparr>], None)"
  by (simp add: id_cursor_items.simps user_timeline_id_def result_max_id_def is_reply_def map_filter_simps)

end
