(* ===== verification/Spec2Isabelle.thy ===== *)
theory Spec2Isabelle
  imports Server Threaded Tweepy
begin

text \<open>
  \<^bold>\<open>A verification model of kaogamasala/tweetapp (\<^verbatim>\<open>src/app.py\<close>).\<close>

  The program is a Flask application of one view. Given a Twitter handle posted from
  a form, it pages through the user's timeline with tweepy, keeps the tweets that
  are not retweets in a pandas DataFrame, derives two views of it (per-day sums,
  and the tweets ranked by retweet count) and renders them with the user's profile.

  \<^medskip>\<^bold>\<open>Theories and what they model.\<close>
  \<^item> \<open>Prelude\<close>: the Python exceptions (\<open>py_error\<close>), exception propagation
    (\<open>py_bind\<close>), \<^verbatim>\<open>d[key]\<close> (\<open>py_getitem\<close>), the substring test \<^verbatim>\<open>p in s\<close>
    (\<open>str_contains\<close>), \<^verbatim>\<open>s.replace('\n', '')\<close> (\<open>strip_newlines\<close>), and
    shared lemmas on descending order and on sums over groups.
  \<^item> \<open>Tweet\<close>: the data. A \<^verbatim>\<open>datetime\<close> and its date (\<open>date_of\<close>,
    \<^verbatim>\<open>.dt.date\<close>); the attributes of a tweepy \<^verbatim>\<open>Status\<close> that the code reads, each
    possibly missing (\<open>status\<close>, \<open>get_attr\<close> raising \<open>AttributeError\<close>); one row
    of \<^verbatim>\<open>tweets_df\<close> with the five columns of \<^verbatim>\<open>columns\<close> (\<open>tweet_row\<close>; the
    column \<^verbatim>\<open>text\<close> is the field \<open>text_col\<close>, \<open>text\<close> being an Isabelle keyword);
    the class invariant of Python's \<^verbatim>\<open>datetime\<close> (\<open>valid_datetime\<close>,
    \<open>valid_date\<close>, \<open>days_in_month\<close>, \<open>is_leap\<close>, modelled from CPython's
    documentation: the code never checks it, the API hands it over), and the range
    of a pandas \<^verbatim>\<open>Timestamp\<close> in nanoseconds (\<open>in_ns_range\<close>, 1677-09-21 to
    2262-04-11, to the second), which line 75 enforces.
  \<^item> \<open>Cursor\<close>: \<^verbatim>\<open>tweepy.Cursor(api.user_timeline, ..., exclude_replies=True).items()\<close>,
    an external collaborator modelled from the spec: pages 0, 1, \<dots> of the
    timeline, replies removed by the service, until an empty page or an API error.
    It has no page cap, so \<open>cursor_items\<close> is a \<^theory_text>\<open>partial_function (option)\<close>;
    no fuel is chosen. Its lemmas say exactly when it returns (some page from the
    start on ends the iteration) and what it returns (the items of the pages before
    the first such page).
  \<^item> \<open>Fetcher\<close>: \<^verbatim>\<open>get_tweets_df\<close> (lines 57--76). \<open>extract_row\<close> is the body of the
    \<^verbatim>\<open>try\<close> (lines 61--71), \<open>fetch_step\<close> one iteration with its \<^verbatim>\<open>except\<close>,
    \<open>fetch_loop\<close> the \<^verbatim>\<open>for\<close> loop over a record \<open>fetch_state\<close> holding the
    DataFrame and the printed exceptions, \<open>to_datetime_rows\<close> line 75
    (\<^verbatim>\<open>pd.to_datetime\<close>, which raises \<^verbatim>\<open>OutOfBoundsDatetime\<close> outside the
    \<^verbatim>\<open>try\<close> when a timestamp is out of range), \<open>get_tweets_df\<close> the whole
    function on top of the cursor.
  \<^item> \<open>Tweepy\<close>: how tweepy actually pages the timeline, modelled from tweepy's
    \<^verbatim>\<open>IdIterator\<close>: each request asks for the statuses older than the smallest id
    of the previous result (\<open>result_max_id\<close>, \<open>cursor_max_id\<close>), and the iteration
    \<open>id_cursor_items\<close> is a \<^theory_text>\<open>partial_function (option)\<close> proved equal, by
    fixpoint induction in both directions, to the page model of \<open>Cursor\<close> on the
    pages these requests return (\<open>id_pages\<close>). Every theorem stated for an
    arbitrary page function therefore holds for tweepy's cursor. This is a
    supporting model of an external library; it carries no claim.
  \<^item> \<open>Aggregate\<close>: \<^verbatim>\<open>get_grouped_df\<close> and \<^verbatim>\<open>get_sorted_df\<close> (lines 90--97):
    \<open>groupby_date_sum\<close> (\<^verbatim>\<open>groupby(...dt.date).sum()\<close>) and \<open>sort_values_desc\<close>
    (\<^verbatim>\<open>sort_values(ascending=False)\<close>, a stable insertion sort; pandas leaves the
    order of ties open, so every theorem about it is stated through the contract
    \<open>ranked_ok\<close> or is independent of tie order). A group row holds the date and
    the sums of \<^verbatim>\<open>fav\<close> and \<^verbatim>\<open>retweets\<close>; the \<^verbatim>\<open>int64\<close> sum of
    \<^verbatim>\<open>tweet_id\<close> is not modelled (see below).
  \<^item> \<open>Handler\<close>: start-up (lines 8--21: \<open>load_config\<close>, \<open>startup\<close>),
    \<^verbatim>\<open>get_profile\<close> (lines 78--87) and the view \<^verbatim>\<open>index\<close> (lines 38--55), which
    composes the others in the code's order and returns the rendered data or the
    exception that escaped, with the lines printed.
  \<^item> \<open>Server\<close>: the serving process of spec \S4.5 and \S5, modelled from the spec
    around the code's view: a record \<open>server\<close> of the shared API client and the
    process's standard output, the step relation \<open>serve\<close> (one request: \<open>index\<close>
    against the shared client, Flask's conversion \<open>flask_response\<close> of an
    escaped exception into 400 or 500, the printed lines appended) and runs
    \<open>serve_run\<close> of requests served one after the other, with invariants by rule
    induction.
  \<^item> \<open>Threaded\<close>: the development server \<^verbatim>\<open>app.run(host="localhost")\<close>
    starts (lines 100--101), threaded by default since Flask 1.0. A record
    \<open>tserver\<close> holds the threads in progress, the answered requests and the
    standard output with each write tagged by its thread. A \<open>thread\<close> is a run of
    \<^verbatim>\<open>index\<close> at the position of the cursor loop of \<^verbatim>\<open>get_tweets_df\<close> (pages
    fetched, writes of the last page still to do) or with its response ready. A
    \<^verbatim>\<open>print(e)\<close> is two writes, the message and the line feed (\<open>out_event\<close>,
    \<open>print_events\<close>). The step relation \<open>tstep\<close> accepts a request, does one
    write, fetches the next page (or, when the cursor ends, computes the view's
    result) or responds. The
    executable scheduler \<open>ts_exec\<close>/\<open>ts_run\<close> is proved to take exactly these
    steps. A thread whose cursor never ends runs forever, as in the code.
    Like \<open>Server\<close>, it is a supporting model of the serving process around the
    view: its theorems relate the two servers and carry no claim.
  \<^item> \<open>Spec2Isabelle\<close> (this theory): the end-to-end properties of \<open>index\<close>.

  \<^medskip>\<^bold>\<open>What is proved.\<close>
  Aggregation: each group's sums are the sums over the tweets of its date (C1); the
  groups are strictly descending by date and cover exactly the posting dates (C2);
  the totals are preserved (C13); the grouped view is fully determined (C14); one
  group per distinct date, never more than the rows (C21). Ranking: a permutation
  in non-increasing retweet order (C3). Fetching: no row comes from a tweet whose
  text contains \<^verbatim>\<open>"RT @"\<close> (C4) or from a reply (C5); a faulty item is skipped
  and printed while every other item is kept (C7); what escapes is an API error or
  the \<^verbatim>\<open>OutOfBoundsDatetime\<close> of line 75 (C8); the termination and the result
  of the fetch are characterised exactly (C9, C10); a stored row can contain the
  marker only when a line feed split it in the raw text (C11); stored texts have no
  line feed (C12); every item is a row, a printed exception or a skipped retweet
  (C22); a row read back from a status carrying its values is that row (C23, round
  trip). The handler: the empty account (C6), GET (C15), a missing form field
  (C16), the order of the API calls and the error that wins (C17, C18), start-up
  (C19), one fetch behind all three tables (C20), and the rendered timestamps are
  pandas timestamps in range with valid dates (C24, type).
  Supporting results without a claim: the substring scan is the library's sublist
  relation (\<open>Prelude\<close>); tweepy's id-based iterator equals the page model
  (\<open>Tweepy\<close>); the sequential server's runs and the threaded server's
  simulation of them, its interleaved output and its hung requests
  (\<open>Server\<close>, \<open>Threaded\<close>).

  \<^medskip>\<^bold>\<open>Bounds and fuel.\<close> pandas holds the counts \<^verbatim>\<open>fav\<close> and
  \<^verbatim>\<open>retweets\<close> as \<^verbatim>\<open>int64\<close>; each is below \<open>2^31\<close> and a timeline has at most
  a few thousand statuses, so their sums stay far below \<open>2^63\<close> and are modelled
  exactly as unbounded \<open>int\<close>. The sum of \<^verbatim>\<open>tweet_id\<close> (ids near
  \<open>1.7 * 10^18\<close>) does overflow or round, so it is left out rather than modelled
  wrongly. No fuel is used: the only loop that may not end (the cursor) is a
  \<^theory_text>\<open>partial_function (option)\<close>, and C9 says exactly when it returns.

  \<^medskip>\<^bold>\<open>Not modelled.\<close> Flask routing and \<^verbatim>\<open>render_template\<close>: framework
  code, and the template \<^verbatim>\<open>templates/index.html\<close> is not among the sources, so
  the model stops at the data passed to it (\<open>page\<close>). Of \<^verbatim>\<open>app.run\<close>,
  Werkzeug's sockets and thread creation. The model follows pandas 1.x, where
  \<^verbatim>\<open>DataFrame.append\<close> (line 72) exists; it was removed in pandas 2.0.
  HTTP transport, OAuth and rate limiting inside tweepy. The summed \<^verbatim>\<open>tweet_id\<close> column of
  \<^verbatim>\<open>grouped_df\<close>. The treatment of the object
  column \<^verbatim>\<open>text\<close> by \<^verbatim>\<open>groupby().sum()\<close> (version-dependent in pandas, and not
  rendered as a number). Time zones of \<^verbatim>\<open>created_at\<close>.
\<close>

section \<open>End-to-end properties of the view\<close>

text \<open>
  C6. The empty account: when the timeline holds no tweet that is not a retweet
  (possibly no tweet at all) and the profile can be read, the view renders the
  profile with three empty tables, prints nothing and raises nothing.
\<close>

theorem index_empty_account:
  assumes "req_method req = POST" and "form req ''user_id'' = Some user_id"
    and "cursor_items (user_timeline (timeline a) user_id True) 0 = Some (items, None)"
    and "\<forall>tweet\<in>set items. \<exists>t. s_text tweet = Some t \<and> str_contains ''RT @'' t"
    and "get_profile a user_id = Inr p"
  shows "index a req = Some (Inr (Index_Data p [] [] []), [])"
proof -
  have "get_tweets_df (timeline a) user_id = Some (Inr [], [])"
    using assms(3,4) by (rule get_tweets_df_only_retweets)
  with assms(1,2,5) show ?thesis
    by (simp add: index_post get_grouped_df_def get_sorted_df_def groupby_date_sum_def)
qed

theorem index_empty_account_witness:
  "req_method \<lparr>req_method = POST, form = [''user_id'' \<mapsto> ''alice'']\<rparr> = POST \<and>
   form \<lparr>req_method = POST, form = [''user_id'' \<mapsto> ''alice'']\<rparr> ''user_id'' = Some ''alice'' \<and>
   cursor_items (user_timeline (timeline (\<lparr>timeline = \<lambda>u k. if k = (0::nat) then Inr [\<lparr>s_id = Some 7, s_created_at = Some \<lparr>year = 2024, month = 1, day = 1, hour = 9, minute = 0, second = 0\<rparr>, s_text = Some ''RT @bob: news'', s_favorite_count = Some 0, s_retweet_count = Some 3, s_in_reply_to_status_id = None\<rparr>] else Inr [], get_user = \<lambda>u. Inr \<lparr>u_id = 42, u_profile_image_url = ''http://img/alice.png'', u_description = ''hi''\<rparr>\<rparr>)) ''alice'' True) 0 = Some ([\<lparr>s_id = Some 7, s_created_at = Some \<lparr>year = 2024, month = 1, day = 1, hour = 9, minute = 0, second = 0\<rparr>, s_text = Some ''RT @bob: news'', s_favorite_count = Some 0, s_retweet_count = Some 3, s_in_reply_to_status_id = None\<rparr>], None) \<and>
   (\<exists>t. s_text \<lparr>s_id = Some 7, s_created_at = Some \<lparr>year = 2024, month = 1, day = 1, hour = 9, minute = 0, second = 0\<rparr>, s_text = Some ''RT @bob: news'', s_favorite_count = Some 0, s_retweet_count = Some 3, s_in_reply_to_status_id = None\<rparr> = Some t \<and> str_contains ''RT @'' t) \<and>
   get_profile (\<lparr>timeline = \<lambda>u k. if k = (0::nat) then Inr [\<lparr>s_id = Some 7, s_created_at = Some \<lparr>year = 2024, month = 1, day = 1, hour = 9, minute = 0, second = 0\<rparr>, s_text = Some ''RT @bob: news'', s_favorite_count = Some 0, s_retweet_count = Some 3, s_in_reply_to_status_id = None\<rparr>] else Inr [], get_user = \<lambda>u. Inr \<lparr>u_id = 42, u_profile_image_url = ''http://img/alice.png'', u_description = ''hi''\<rparr>\<rparr>) ''alice'' = Inr \<lparr>p_id = 42, p_user_id = ''alice'', p_image = ''http://img/alice.png'', p_description = ''hi''\<rparr> \<and>
   index (\<lparr>timeline = \<lambda>u k. if k = (0::nat) then Inr [\<lparr>s_id = Some 7, s_created_at = Some \<lparr>year = 2024, month = 1, day = 1, hour = 9, minute = 0, second = 0\<rparr>, s_text = Some ''RT @bob: news'', s_favorite_count = Some 0, s_retweet_count = Some 3, s_in_reply_to_status_id = None\<rparr>] else Inr [], get_user = \<lambda>u. Inr \<lparr>u_id = 42, u_profile_image_url = ''http://img/alice.png'', u_description = ''hi''\<rparr>\<rparr>) \<lparr>req_method = POST, form = [''user_id'' \<mapsto> ''alice'']\<rparr> = Some (Inr (Index_Data \<lparr>p_id = 42, p_user_id = ''alice'', p_image = ''http://img/alice.png'', p_description = ''hi''\<rparr> [] [] []), [])"
proof -
  have h1: "req_method \<lparr>req_method = POST, form = [''user_id'' \<mapsto> ''alice'']\<rparr> = POST" by simp
  have h2: "form \<lparr>req_method = POST, form = [''user_id'' \<mapsto> ''alice'']\<rparr> ''user_id'' = Some ''alice''" by simp
  have h3: "cursor_items (user_timeline (timeline (\<lparr>timeline = \<lambda>u k. if k = (0::nat) then Inr [\<lparr>s_id = Some 7, s_created_at = Some \<lparr>year = 2024, month = 1, day = 1, hour = 9, minute = 0, second = 0\<rparr>, s_text = Some ''RT @bob: news'', s_favorite_count = Some 0, s_retweet_count = Some 3, s_in_reply_to_status_id = None\<rparr>] else Inr [], get_user = \<lambda>u. Inr \<lparr>u_id = 42, u_profile_image_url = ''http://img/alice.png'', u_description = ''hi''\<rparr>\<rparr>)) ''alice'' True) 0 = Some ([\<lparr>s_id = Some 7, s_created_at = Some \<lparr>year = 2024, month = 1, day = 1, hour = 9, minute = 0, second = 0\<rparr>, s_text = Some ''RT @bob: news'', s_favorite_count = Some 0, s_retweet_count = Some 3, s_in_reply_to_status_id = None\<rparr>], None)"
    by (simp add: exec_simps is_reply_def)
  have h4: "\<forall>tweet\<in>set [\<lparr>s_id = Some 7, s_created_at = Some \<lparr>year = 2024, month = 1, day = 1, hour = 9, minute = 0, second = 0\<rparr>, s_text = Some ''RT @bob: news'', s_favorite_count = Some 0, s_retweet_count = Some 3, s_in_reply_to_status_id = None\<rparr>]. \<exists>t. s_text tweet = Some t \<and> str_contains ''RT @'' t"
    by simp
  have h5: "get_profile (\<lparr>timeline = \<lambda>u k. if k = (0::nat) then Inr [\<lparr>s_id = Some 7, s_created_at = Some \<lparr>year = 2024, month = 1, day = 1, hour = 9, minute = 0, second = 0\<rparr>, s_text = Some ''RT @bob: news'', s_favorite_count = Some 0, s_retweet_count = Some 3, s_in_reply_to_status_id = None\<rparr>] else Inr [], get_user = \<lambda>u. Inr \<lparr>u_id = 42, u_profile_image_url = ''http://img/alice.png'', u_description = ''hi''\<rparr>\<rparr>) ''alice'' = Inr \<lparr>p_id = 42, p_user_id = ''alice'', p_image = ''http://img/alice.png'', p_description = ''hi''\<rparr>"
    by (simp add: exec_simps)
  show ?thesis using h1 h2 h3 h4 h5 index_empty_account [OF h1 h2 h3 h4 h5] by simp
qed

text \<open>
  C20. No cross-request mixing: a successful POST renders the profile of the posted
  handle together with the raw table of one fetch and the grouped and ranked views
  computed from that same table, and prints what that fetch printed.
\<close>

theorem index_post_tables:
  assumes "req_method req = POST" and "form req ''user_id'' = Some user_id"
    and "get_tweets_df (timeline a) user_id = Some (Inr rows, out)"
    and "get_user a user_id = Inr u"
  shows "index a req =
    Some (Inr (Index_Data \<lparr>p_id = u_id u, p_user_id = user_id, p_image = u_profile_image_url u,
                            p_description = u_description u\<rparr>
                 rows (get_grouped_df rows) (get_sorted_df rows)), out)"
  using assms by (simp add: index_post get_profile_def)

theorem index_post_tables_witness:
  "req_method \<lparr>req_method = POST, form = [''user_id'' \<mapsto> ''alice'']\<rparr> = POST \<and>
   form \<lparr>req_method = POST, form = [''user_id'' \<mapsto> ''alice'']\<rparr> ''user_id'' = Some ''alice'' \<and>
   get_tweets_df (timeline (\<lparr>timeline = \<lambda>u k. if k = (0::nat) then Inr [\<lparr>s_id = Some 5, s_created_at = Some \<lparr>year = 2024, month = 1, day = 3, hour = 9, minute = 0, second = 0\<rparr>, s_text = Some ''x'', s_favorite_count = Some 1, s_retweet_count = Some 1, s_in_reply_to_status_id = None\<rparr>] else Inr [], get_user = \<lambda>u. Inr \<lparr>u_id = 42, u_profile_image_url = ''http://img/alice.png'', u_description = ''hi''\<rparr>\<rparr>)) ''alice'' = Some (Inr [\<lparr>tweet_id = 5, created_at = \<lparr>year = 2024, month = 1, day = 3, hour = 9, minute = 0, second = 0\<rparr>, text_col = ''x'', fav = 1, retweets = 1\<rparr>], []) \<and>
   get_user (\<lparr>timeline = \<lambda>u k. if k = (0::nat) then Inr [\<lparr>s_id = Some 5, s_created_at = Some \<lparr>year = 2024, month = 1, day = 3, hour = 9, minute = 0, second = 0\<rparr>, s_text = Some ''x'', s_favorite_count = Some 1, s_retweet_count = Some 1, s_in_reply_to_status_id = None\<rparr>] else Inr [], get_user = \<lambda>u. Inr \<lparr>u_id = 42, u_profile_image_url = ''http://img/alice.png'', u_description = ''hi''\<rparr>\<rparr>) ''alice'' = Inr \<lparr>u_id = 42, u_profile_image_url = ''http://img/alice.png'', u_description = ''hi''\<rparr> \<and>
   index (\<lparr>timeline = \<lambda>u k. if k = (0::nat) then Inr [\<lparr>s_id = Some 5, s_created_at = Some \<lparr>year = 2024, month = 1, day = 3, hour = 9, minute = 0, second = 0\<rparr>, s_text = Some ''x'', s_favorite_count = Some 1, s_retweet_count = Some 1, s_in_reply_to_status_id = None\<rparr>] else Inr [], get_user = \<lambda>u. Inr \<lparr>u_id = 42, u_profile_image_url = ''http://img/alice.png'', u_description = ''hi''\<rparr>\<rparr>) \<lparr>req_method = POST, form = [''user_id'' \<mapsto> ''alice'']\<rparr> =
    Some (Inr (Index_Data \<lparr>p_id = u_id \<lparr>u_id = 42, u_profile_image_url = ''http://img/alice.png'', u_description = ''hi''\<rparr>, p_user_id = ''alice'',
                            p_image = u_profile_image_url \<lparr>u_id = 42, u_profile_image_url = ''http://img/alice.png'', u_description = ''hi''\<rparr>,
                            p_description = u_description \<lparr>u_id = 42, u_profile_image_url = ''http://img/alice.png'', u_description = ''hi''\<rparr>\<rparr>
                 [\<lparr>tweet_id = 5, created_at = \<lparr>year = 2024, month = 1, day = 3, hour = 9, minute = 0, second = 0\<rparr>, text_col = ''x'', fav = 1, retweets = 1\<rparr>] (get_grouped_df [\<lparr>tweet_id = 5, created_at = \<lparr>year = 2024, month = 1, day = 3, hour = 9, minute = 0, second = 0\<rparr>, text_col = ''x'', fav = 1, retweets = 1\<rparr>]) (get_sorted_df [\<lparr>tweet_id = 5, created_at = \<lparr>year = 2024, month = 1, day = 3, hour = 9, minute = 0, second = 0\<rparr>, text_col = ''x'', fav = 1, retweets = 1\<rparr>])), [])"
proof -
  have h1: "req_method \<lparr>req_method = POST, form = [''user_id'' \<mapsto> ''alice'']\<rparr> = POST" by simp
  have h2: "form \<lparr>req_method = POST, form = [''user_id'' \<mapsto> ''alice'']\<rparr> ''user_id'' = Some ''alice''" by simp
  have h3: "get_tweets_df (timeline (\<lparr>timeline = \<lambda>u k. if k = (0::nat) then Inr [\<lparr>s_id = Some 5, s_created_at = Some \<lparr>year = 2024, month = 1, day = 3, hour = 9, minute = 0, second = 0\<rparr>, s_text = Some ''x'', s_favorite_count = Some 1, s_retweet_count = Some 1, s_in_reply_to_status_id = None\<rparr>] else Inr [], get_user = \<lambda>u. Inr \<lparr>u_id = 42, u_profile_image_url = ''http://img/alice.png'', u_description = ''hi''\<rparr>\<rparr>)) ''alice'' = Some (Inr [\<lparr>tweet_id = 5, created_at = \<lparr>year = 2024, month = 1, day = 3, hour = 9, minute = 0, second = 0\<rparr>, text_col = ''x'', fav = 1, retweets = 1\<rparr>], [])"
    by (simp add: exec_simps is_reply_def)
  have h4: "get_user (\<lparr>timeline = \<lambda>u k. if k = (0::nat) then Inr [\<lparr>s_id = Some 5, s_created_at = Some \<lparr>year = 2024, month = 1, day = 3, hour = 9, minute = 0, second = 0\<rparr>, s_text = Some ''x'', s_favorite_count = Some 1, s_retweet_count = Some 1, s_in_reply_to_status_id = None\<rparr>] else Inr [], get_user = \<lambda>u. Inr \<lparr>u_id = 42, u_profile_image_url = ''http://img/alice.png'', u_description = ''hi''\<rparr>\<rparr>) ''alice'' = Inr \<lparr>u_id = 42, u_profile_image_url = ''http://img/alice.png'', u_description = ''hi''\<rparr>" by simp
  show ?thesis using h1 h2 h3 h4 index_post_tables [OF h1 h2 h3 h4] by blast
qed

section \<open>Well-formed timestamps\<close>

lemma get_tweets_df_row_created:
  assumes "get_tweets_df (timeline a) user_id = Some (Inr rows, out)" and "r \<in> set rows"
  shows "\<exists>i ss tweet. timeline a user_id i = Inr ss \<and> tweet \<in> set ss \<and>
    s_created_at tweet = Some (created_at r)"
  using get_tweets_df_row_source [OF assms]
  by (fastforce simp: user_timeline_def extract_row_Some split: sum.splits)

text \<open>
  C24. Type of the rendered timestamps: every timestamp of the ranked view is a
  pandas \<^verbatim>\<open>Timestamp\<close>, within its nanosecond range, and so is every date of the
  grouped view, because line 75 raises on any other; when moreover every status the
  API serves carries a well-formed \<^verbatim>\<open>datetime\<close>, those dates are valid calendar
  dates and those timestamps well-formed.
\<close>

theorem index_dates_valid:
  assumes "\<forall>u k ss tweet t. timeline a u k = Inr ss \<longrightarrow> tweet \<in> set ss \<longrightarrow>
      s_created_at tweet = Some t \<longrightarrow> valid_datetime t"
    and "index a req = Some (Inr (Index_Data p rows g srt), out)"
  shows "(\<forall>x\<in>set g. valid_date (g_date x) \<and> (1677, 9, 21) \<le> g_date x \<and> g_date x \<le> (2262, 4, 11)) \<and>
    (\<forall>r\<in>set srt. valid_datetime (created_at r) \<and> in_ns_range (created_at r))"
proof -
  have post: "req_method req = POST"
    using assms(2) by (cases "req_method req") (simp_all add: index_def)
  moreover obtain user_id where u: "form req ''user_id'' = Some user_id"
    using assms(2) post by (cases "form req ''user_id''") (simp_all add: index_def py_getitem_def)
  ultimately obtain user_id where "get_tweets_df (timeline a) user_id = Some (Inr rows, out)"
    and g: "g = get_grouped_df rows" and s: "srt = get_sorted_df rows"
    using assms(2) by (auto simp: index_post py_bind_eq_Inr)
  then have ok: "\<forall>r\<in>set rows. valid_datetime (created_at r) \<and> in_ns_range (created_at r)"
    using assms(1) by (blast dest: get_tweets_df_row_created get_tweets_df_rows_in_range)
  then have "\<forall>x\<in>set g. valid_date (g_date x) \<and> (1677, 9, 21) \<le> g_date x \<and> g_date x \<le> (2262, 4, 11)"
    by (auto simp: g set_get_grouped_df row_date_def valid_datetime_date in_ns_range_date)
  with ok show ?thesis by (simp add: s get_sorted_df_def)
qed

theorem index_dates_valid_witness:
  "index \<lparr>timeline = \<lambda>u k. if k = (0::nat) then Inr [\<lparr>s_id = Some 5, s_created_at = Some \<lparr>year = 2024, month = 2, day = 29, hour = 9, minute = 0, second = 0\<rparr>, s_text = Some ''x'', s_favorite_count = Some 1, s_retweet_count = Some 1, s_in_reply_to_status_id = None\<rparr>] else Inr [], get_user = \<lambda>u. Inr \<lparr>u_id = 42, u_profile_image_url = ''http://img/alice.png'', u_description = ''hi''\<rparr>\<rparr> \<lparr>req_method = POST, form = [''user_id'' \<mapsto> ''alice'']\<rparr> = Some (Inr (Index_Data \<lparr>p_id = 42, p_user_id = ''alice'', p_image = ''http://img/alice.png'', p_description = ''hi''\<rparr> [\<lparr>tweet_id = 5, created_at = \<lparr>year = 2024, month = 2, day = 29, hour = 9, minute = 0, second = 0\<rparr>, text_col = ''x'', fav = 1, retweets = 1\<rparr>] [\<lparr>g_date = (2024, 2, 29), g_fav = 1, g_retweets = 1\<rparr>] [\<lparr>tweet_id = 5, created_at = \<lparr>year = 2024, month = 2, day = 29, hour = 9, minute = 0, second = 0\<rparr>, text_col = ''x'', fav = 1, retweets = 1\<rparr>]), []) \<and>
   valid_date (g_date \<lparr>g_date = (2024, 2, 29), g_fav = 1, g_retweets = 1\<rparr>) \<and>
   (1677, 9, 21) \<le> g_date \<lparr>g_date = (2024, 2, 29), g_fav = 1, g_retweets = 1\<rparr> \<and>
   valid_datetime (created_at \<lparr>tweet_id = 5, created_at = \<lparr>year = 2024, month = 2, day = 29, hour = 9, minute = 0, second = 0\<rparr>, text_col = ''x'', fav = 1, retweets = 1\<rparr>) \<and> in_ns_range (created_at \<lparr>tweet_id = 5, created_at = \<lparr>year = 2024, month = 2, day = 29, hour = 9, minute = 0, second = 0\<rparr>, text_col = ''x'', fav = 1, retweets = 1\<rparr>)"
proof -
  have h1: "\<forall>u k ss tweet t. timeline \<lparr>timeline = \<lambda>u k. if k = (0::nat) then Inr [\<lparr>s_id = Some 5, s_created_at = Some \<lparr>year = 2024, month = 2, day = 29, hour = 9, minute = 0, second = 0\<rparr>, s_text = Some ''x'', s_favorite_count = Some 1, s_retweet_count = Some 1, s_in_reply_to_status_id = None\<rparr>] else Inr [], get_user = \<lambda>u. Inr \<lparr>u_id = 42, u_profile_image_url = ''http://img/alice.png'', u_description = ''hi''\<rparr>\<rparr> u k = Inr ss \<longrightarrow> tweet \<in> set ss \<longrightarrow>
      s_created_at tweet = Some t \<longrightarrow> valid_datetime t"
    by (simp add: valid_datetime_def valid_date_def days_in_month_def is_leap_def date_of_def)
  have h2: "index \<lparr>timeline = \<lambda>u k. if k = (0::nat) then Inr [\<lparr>s_id = Some 5, s_created_at = Some \<lparr>year = 2024, month = 2, day = 29, hour = 9, minute = 0, second = 0\<rparr>, s_text = Some ''x'', s_favorite_count = Some 1, s_retweet_count = Some 1, s_in_reply_to_status_id = None\<rparr>] else Inr [], get_user = \<lambda>u. Inr \<lparr>u_id = 42, u_profile_image_url = ''http://img/alice.png'', u_description = ''hi''\<rparr>\<rparr> \<lparr>req_method = POST, form = [''user_id'' \<mapsto> ''alice'']\<rparr> = Some (Inr (Index_Data \<lparr>p_id = 42, p_user_id = ''alice'', p_image = ''http://img/alice.png'', p_description = ''hi''\<rparr> [\<lparr>tweet_id = 5, created_at = \<lparr>year = 2024, month = 2, day = 29, hour = 9, minute = 0, second = 0\<rparr>, text_col = ''x'', fav = 1, retweets = 1\<rparr>] [\<lparr>g_date = (2024, 2, 29), g_fav = 1, g_retweets = 1\<rparr>] [\<lparr>tweet_id = 5, created_at = \<lparr>year = 2024, month = 2, day = 29, hour = 9, minute = 0, second = 0\<rparr>, text_col = ''x'', fav = 1, retweets = 1\<rparr>]), [])"
    by (simp add: exec_simps is_reply_def)
  show ?thesis using h2 index_dates_valid [OF h1 h2] by simp
qed

end
